theory Spec2Isabelle
  imports Main
begin

section \<open>JavaScript values\<close>

text \<open>
  The validator \<^verbatim>\<open>api.js\<close> inspects whatever the modules under validation export, so the
  model needs JavaScript values with their runtime type, their own enumerable data
  properties and, for objects, their identity (\<^verbatim>\<open>===\<close> on objects is identity).

  An object that exists in the loaded code carries \<open>World n\<close>. An object that the validator
  allocates itself (the \<^verbatim>\<open>EvalError\<close> of the loader, the arrays built by
  \<^verbatim>\<open>Object.keys\<close>, \<^verbatim>\<open>map\<close> and \<^verbatim>\<open>filter\<close>) carries \<open>Fresh\<close>: it is never identical to an object
  of the loaded code, and \<^verbatim>\<open>api.js\<close> never compares two of its own allocations by identity.

  Arrays keep their holes: an element is \<open>None\<close> where the index is absent. The property
  list of an array, function or plain object holds the own enumerable data properties
  other than array indices, in insertion order. Accessor properties and methods which
  loaded code adds to its own objects are outside the model.
\<close>

datatype ident = World nat | Fresh

datatype jsval =
    JSUndefined
  | JSNull
  | JSBool bool
  | JSNum int
  | JSStr string
  | JSFun ident "(string \<times> jsval) list"
  | JSArr ident "jsval option list" "(string \<times> jsval) list"
  | JSErr ident string string
  | JSObj ident "(string \<times> jsval) list"

text \<open>\<open>JSErr i c m\<close> is an instance of the error constructor named \<open>c\<close> with message \<open>m\<close>.\<close>

fun typeof :: "jsval \<Rightarrow> string" where
  "typeof JSUndefined = ''undefined''"
| "typeof JSNull = ''object''"
| "typeof (JSBool b) = ''boolean''"
| "typeof (JSNum n) = ''number''"
| "typeof (JSStr s) = ''string''"
| "typeof (JSFun i ps) = ''function''"
| "typeof (JSArr i es ps) = ''object''"
| "typeof (JSErr i c m) = ''object''"
| "typeof (JSObj i ps) = ''object''"

fun instanceof_EvalError :: "jsval \<Rightarrow> bool" where
  "instanceof_EvalError (JSErr i c m) = (c = ''EvalError'')"
| "instanceof_EvalError v = False"

fun isArray :: "jsval \<Rightarrow> bool" where
  "isArray (JSArr i es ps) = True"
| "isArray v = False"

fun truthy :: "jsval \<Rightarrow> bool" where
  "truthy JSUndefined = False"
| "truthy JSNull = False"
| "truthy (JSBool b) = b"
| "truthy (JSNum n) = (n \<noteq> 0)"
| "truthy (JSStr s) = (s \<noteq> [])"
| "truthy v = True"

fun ident_of :: "jsval \<Rightarrow> ident option" where
  "ident_of (JSFun i ps) = Some i"
| "ident_of (JSArr i es ps) = Some i"
| "ident_of (JSErr i c m) = Some i"
| "ident_of (JSObj i ps) = Some i"
| "ident_of v = None"

text \<open>\<^verbatim>\<open>a === b\<close>: primitives by value, objects by identity.\<close>

definition strict_equal :: "jsval \<Rightarrow> jsval \<Rightarrow> bool" where
  "strict_equal a b =
     (case (ident_of a, ident_of b) of
        (None, None) \<Rightarrow> a = b
      | (Some (World m), Some (World n)) \<Rightarrow> m = n
      | _ \<Rightarrow> False)"

definition TypeError :: "string \<Rightarrow> jsval" where
  "TypeError m = JSErr Fresh ''TypeError'' m"

text \<open>
  \<^verbatim>\<open>v[key]\<close> for a key that no built-in prototype defines (\<^verbatim>\<open>implementation\<close>,
  \<^verbatim>\<open>getPolyfill\<close>, \<^verbatim>\<open>shim\<close>), and \<^verbatim>\<open>message\<close>, which error instances have. Reading a property of
  \<^verbatim>\<open>null\<close> or \<^verbatim>\<open>undefined\<close> throws a TypeError; \<open>Inl\<close> is the thrown value.
\<close>

fun get_prop :: "jsval \<Rightarrow> string \<Rightarrow> jsval + jsval" where
  "get_prop JSUndefined k = Inl (TypeError (''Cannot read properties of undefined (reading '' @ k @ '')''))"
| "get_prop JSNull k = Inl (TypeError (''Cannot read properties of null (reading '' @ k @ '')''))"
| "get_prop (JSFun i ps) k = Inr (case map_of ps k of None \<Rightarrow> JSUndefined | Some v \<Rightarrow> v)"
| "get_prop (JSArr i es ps) k = Inr (case map_of ps k of None \<Rightarrow> JSUndefined | Some v \<Rightarrow> v)"
| "get_prop (JSObj i ps) k = Inr (case map_of ps k of None \<Rightarrow> JSUndefined | Some v \<Rightarrow> v)"
| "get_prop (JSErr i c m) k = Inr (if k = ''message'' then JSStr m else JSUndefined)"
| "get_prop v k = Inr JSUndefined"

section \<open>The world outside the validator\<close>

text \<open>
  Everything \<^verbatim>\<open>api.js\<close> asks of Node and of the code under validation is a field of the
  world. A result \<open>Inl e\<close> means that the call throws the value \<open>e\<close>.
  \<^item> \<open>js_require\<close> is \<^verbatim>\<open>require\<close> as bound to \<^verbatim>\<open>api.js\<close>: a relative specifier is resolved against
    the directory of \<^verbatim>\<open>api.js\<close> itself, and a module whose initialiser throws makes
    \<^verbatim>\<open>require\<close> throw the same value (any JavaScript value can be thrown).
  \<^item> \<open>js_call\<close> invokes a function value without arguments.
  \<^item> \<open>js_ToString\<close> is \<^verbatim>\<open>String(v)\<close> for a value that is neither a string nor
    \<^verbatim>\<open>undefined\<close>; on an object it runs the object's own conversion code.
  \<^item> \<open>readdirSync\<close> and \<open>statSync_isDirectory\<close> receive the path as \<^verbatim>\<open>api.js\<close> passes it; the
    operating system resolves a relative path against the current working directory.
  \<^item> \<open>path_join\<close>, \<open>path_dirname\<close>, \<open>path_basename\<close> are Node's \<^verbatim>\<open>path\<close> functions and
    \<open>script_dirname\<close> is \<^verbatim>\<open>__dirname\<close> of \<^verbatim>\<open>api.js\<close>.
  \<^item> \<open>spawn_close command cwd\<close> is what becomes of the child which \<^verbatim>\<open>spawn\<close> starts with
    that command in that directory: \<open>Some code\<close> when its \<^verbatim>\<open>close\<close> event arrives with the
    argument \<open>code\<close> (the exit code, or \<^verbatim>\<open>null\<close> after a signal), \<open>None\<close> when the event never
    reaches the handler (the child does not terminate, or it could not be started and
    the \<^verbatim>\<open>error\<close> event, for which \<^verbatim>\<open>api.js\<close> has no handler, ends the process).
  The world is read, never updated: the checks of one run are taken against one state of
  the loaded code and of the disk.
\<close>

record world =
  js_require :: "string \<Rightarrow> jsval + jsval"
  js_call :: "jsval \<Rightarrow> jsval + jsval"
  js_ToString :: "jsval \<Rightarrow> jsval + string"
  readdirSync :: "string \<Rightarrow> jsval + string list"
  statSync_isDirectory :: "string \<Rightarrow> jsval + bool"
  path_join :: "string \<Rightarrow> string \<Rightarrow> string"
  path_dirname :: "string \<Rightarrow> string"
  path_basename :: "string \<Rightarrow> string"
  script_dirname :: string
  spawn_close :: "string \<Rightarrow> string \<Rightarrow> jsval option"

text \<open>The flags of lines 27 to 31, resolved once from the command line.\<close>

record config =
  isBound :: bool
  isProperty :: bool
  skipShimPolyfill :: bool
  skipAutoShim :: bool
  isMulti :: bool

definition isArg :: "string \<Rightarrow> bool" where
  "isArg x = (take 2 x = ''--'')"

definition config_of_args :: "string list \<Rightarrow> config" where
  "config_of_args args =
     \<lparr> isBound = (''--bound'' \<in> set args),
       isProperty = (''--property'' \<in> set args),
       skipShimPolyfill = (''--skip-shim-returns-polyfill'' \<in> set args),
       skipAutoShim = (''--skip-auto-shim'' \<in> set args),
       isMulti = (''--multi'' \<in> set args) \<rparr>"

text \<open>
  An entry of \<^verbatim>\<open>moduleNames\<close> is a label and either a module name (line 34) or the pair of
  the main file and the package directory (line 50). The reading of \<^verbatim>\<open>package.json\<close> which
  produces the pair (lines 38 to 51) is not modelled; a pair is given as such.
\<close>

datatype nameOrFilePaths = Name string | FilePaths string string

definition makeEntries :: "string \<Rightarrow> string \<times> nameOrFilePaths" where
  "makeEntries name = (name, Name name)"

definition moduleNames_of_args :: "string list \<Rightarrow> (string \<times> nameOrFilePaths) list" where
  "moduleNames_of_args args = map makeEntries (filter (\<lambda>x. \<not> isArg x) args)"

section \<open>The module loader\<close>

text \<open>
  \<^verbatim>\<open>new EvalError(m)\<close>: the message is absent (read back as the empty string) when \<open>m\<close> is
  \<^verbatim>\<open>undefined\<close>, and \<^verbatim>\<open>String(m)\<close> otherwise.
\<close>

definition new_EvalError :: "world \<Rightarrow> jsval \<Rightarrow> jsval + jsval" where
  "new_EvalError w m =
     (case m of
        JSUndefined \<Rightarrow> Inr (JSErr Fresh ''EvalError'' [])
      | JSStr s \<Rightarrow> Inr (JSErr Fresh ''EvalError'' s)
      | _ \<Rightarrow> (case js_ToString w m of
                Inl t \<Rightarrow> Inl t
              | Inr s \<Rightarrow> Inr (JSErr Fresh ''EvalError'' s)))"

text \<open>
  Lines 52 to 58. The handler evaluates \<^verbatim>\<open>e.message\<close> on whatever was thrown, so the handler
  itself can throw.
\<close>

definition requireOrEvalError :: "world \<Rightarrow> string \<Rightarrow> jsval + jsval" where
  "requireOrEvalError w name =
     (case js_require w name of
        Inr m \<Rightarrow> Inr m
      | Inl e \<Rightarrow> (case get_prop e ''message'' of
                  Inl t \<Rightarrow> Inl t
                | Inr m \<Rightarrow> new_EvalError w m))"

section \<open>What the validator does: calls on tape and on the operating system\<close>

text \<open>
  A run of \<^verbatim>\<open>api.js\<close> is observed through the calls it makes on the \<^verbatim>\<open>tape\<close> test object and
  through the processes it spawns. \<open>T_test name skip body thrown\<close> is a call
  \<^verbatim>\<open>t.test(name, { skip: skip }, cb)\<close>, with the calls which \<open>cb\<close> makes when tape runs it and
  the value it throws, if any. \<open>Proc_on ev h\<close> registers the handler \<open>h\<close> for the event \<open>ev\<close> of
  the spawned process; the handler is kept as the function from the event's argument to
  the calls it makes. tape runs the callback of a registered test after the registering
  callback has ended, if it runs it at all; the trace keeps each test at the place of its
  registration, and the section on how tape runs the tests says which of them run.
\<close>

datatype event =
    T_equal jsval jsval string
  | T_deepEqual jsval jsval string
  | T_ok jsval string
  | T_error jsval string
  | T_comment string
  | T_plan nat
  | T_end
  | T_test string bool "event list" "jsval option"
  | Spawn string "string list" string string
  | Proc_on string "jsval \<Rightarrow> event list"

text \<open>\<open>Spawn command args cwd stdio\<close> is \<^verbatim>\<open>spawn(command, args, { cwd: cwd, stdio: stdio })\<close>.\<close>

text \<open>
  A piece of validator code yields the calls it made and then either a thrown value
  (\<open>Inl\<close>) or its result (\<open>Inr\<close>). Nothing in \<^verbatim>\<open>api.js\<close> catches a throw other than the loader,
  so a throw ends the enclosing callback and, with it, the process.
\<close>

type_synonym 'a run = "event list \<times> (jsval + 'a)"

definition ret :: "'a \<Rightarrow> 'a run" where
  "ret a = ([], Inr a)"

definition emit :: "event \<Rightarrow> unit run" where
  "emit e = ([e], Inr ())"

definition lift :: "jsval + 'a \<Rightarrow> 'a run" where
  "lift r = ([], r)"

definition bnd :: "'a run \<Rightarrow> ('a \<Rightarrow> 'b run) \<Rightarrow> 'b run" where
  "bnd m f =
     (case m of
        (es, Inl e) \<Rightarrow> (es, Inl e)
      | (es, Inr a) \<Rightarrow> (case f a of (es', r) \<Rightarrow> (es @ es', r)))"

definition thn :: "'a run \<Rightarrow> 'b run \<Rightarrow> 'b run" where
  "thn m k = bnd m (\<lambda>_. k)"

definition thrown :: "'a run \<Rightarrow> jsval option" where
  "thrown m = (case snd m of Inl e \<Rightarrow> Some e | Inr a \<Rightarrow> None)"

text \<open>
  The registration of a test. tape does not invoke the callback of a test registered
  with \<^verbatim>\<open>skip: true\<close>; for any other test the record keeps what the callback does if tape
  comes to run it.
\<close>

definition tape_test :: "string \<Rightarrow> bool \<Rightarrow> unit run \<Rightarrow> event" where
  "tape_test name skip cb =
     (if skip then T_test name True [] None else T_test name False (fst cb) (thrown cb))"

subsection \<open>How tape judges an assertion\<close>

text \<open>
  tape is a dependency of the repository, not part of it. Its \<^verbatim>\<open>equal\<close> is \<^verbatim>\<open>===\<close>, its \<^verbatim>\<open>ok\<close>
  passes on a truthy value and its \<^verbatim>\<open>error\<close> on a falsy one. Its \<^verbatim>\<open>deepEqual\<close> is documented as
  Node's deep equality with strict comparison of the leaves. It is modelled as equality of
  structure in which the identity of arrays, plain objects and errors is ignored,
  functions are compared by identity and an array has its length and its holes. \<^verbatim>\<open>api.js\<close>
  only compares against arrays of strings which it built itself; there the order of
  properties, which this definition would observe, plays no role.
\<close>

primrec erase :: "jsval \<Rightarrow> jsval" where
  "erase JSUndefined = JSUndefined"
| "erase JSNull = JSNull"
| "erase (JSBool b) = JSBool b"
| "erase (JSNum n) = JSNum n"
| "erase (JSStr s) = JSStr s"
| "erase (JSFun i ps) = JSFun i ps"
| "erase (JSArr i es ps) = JSArr Fresh (map (map_option erase) es) (map (map_prod id erase) ps)"
| "erase (JSErr i c m) = JSErr Fresh c m"
| "erase (JSObj i ps) = JSObj Fresh (map (map_prod id erase) ps)"

definition deep_equal :: "jsval \<Rightarrow> jsval \<Rightarrow> bool" where
  "deep_equal a b = (erase a = erase b)"

datatype outcome = Pass | Fail

definition judge :: "bool \<Rightarrow> outcome option" where
  "judge b = Some (if b then Pass else Fail)"

fun outcome_of :: "event \<Rightarrow> outcome option" where
  "outcome_of (T_equal a b m) = judge (strict_equal a b)"
| "outcome_of (T_deepEqual a b m) = judge (deep_equal a b)"
| "outcome_of (T_ok v m) = judge (truthy v)"
| "outcome_of (T_error v m) = judge (\<not> truthy v)"
| "outcome_of e = None"

fun message_of :: "event \<Rightarrow> string option" where
  "message_of (T_equal a b m) = Some m"
| "message_of (T_deepEqual a b m) = Some m"
| "message_of (T_ok v m) = Some m"
| "message_of (T_error v m) = Some m"
| "message_of e = None"

definition has_assertion :: "string \<Rightarrow> event list \<Rightarrow> bool" where
  "has_assertion m es = list_ex (\<lambda>e. message_of e = Some m) es"

definition count_assertions :: "event list \<Rightarrow> nat" where
  "count_assertions es = length (filter (\<lambda>e. message_of e \<noteq> None) es)"

section \<open>The side-effect prober and the single-package validator\<close>

text \<open>Calling a value: a TypeError unless it is a function.\<close>

definition call_js :: "world \<Rightarrow> jsval \<Rightarrow> jsval + jsval" where
  "call_js w f =
     (case f of
        JSFun i ps \<Rightarrow> js_call w f
      | _ \<Rightarrow> Inl (TypeError ''value is not a function''))"

text \<open>
  Lines 59 to 75, \<^verbatim>\<open>testAutoModule\<close>. The \<^verbatim>\<open>require\<close> of line 66 is the plain one: what it
  throws leaves the callback.
\<close>

definition testAuto :: "config \<Rightarrow> world \<Rightarrow> string \<Rightarrow> string \<Rightarrow> bool \<Rightarrow> unit run" where
  "testAuto cfg w prefix packageDir asMulti =
     emit (tape_test (prefix @ ''auto'') False
       (let msg = ''auto is present'' in
        if skipAutoShim cfg then
          thn (emit (T_comment (''# SKIP '' @ msg)))
              (emit T_end)
        else
          bnd (lift (js_require w (path_join w packageDir ''/auto''))) (\<lambda>auto.
          thn (emit (T_comment (msg @ '' (pass `--skip-auto-shim` to skip this test)'')))
         (thn (emit (Spawn (path_join w (script_dirname w)
                              (if asMulti then ''multiAutoTest.js'' else ''autoTest.js''))
                           [] packageDir ''inherit''))
         (thn (emit (T_plan 1))
              (emit (Proc_on ''close''
                 (\<lambda>code. [T_equal code (JSNum 0) ''auto invokes shim'']))))))))"

text \<open>Lines 87 to 94, the callback of the \<^verbatim>\<open>export\<close> test.\<close>

definition export_cb :: "config \<Rightarrow> world \<Rightarrow> jsval \<Rightarrow> jsval \<Rightarrow> unit run" where
  "export_cb cfg w module getPolyfill =
     thn (emit (T_equal (JSStr (typeof module)) (JSStr ''function'') ''module is a function''))
    (thn (emit (tape_test ''module is NOT bound (pass `--bound` to skip this test)'' (isBound cfg)
            (bnd (lift (call_js w getPolyfill)) (\<lambda>p.
             thn (emit (T_equal module p ''module.exports === getPolyfill()''))
                 (emit T_end)))))
         (emit T_end))"

text \<open>Lines 96 to 108, the callback of the \<^verbatim>\<open>implementation\<close> test.\<close>

definition implementation_cb :: "config \<Rightarrow> jsval \<Rightarrow> jsval \<Rightarrow> unit run" where
  "implementation_cb cfg module implementation =
     thn (if isMulti cfg then
            emit (T_comment ''# SKIP module.exports.implementation === implementation.js'')
          else
            bnd (lift (get_prop module ''implementation'')) (\<lambda>mi.
            emit (T_equal implementation mi ''module.exports.implementation === implementation.js'')))
    (thn (if isProperty cfg then
            emit (T_comment ''# SKIP implementation that is a data property need not be a function'')
          else
            emit (T_equal (JSStr (typeof implementation)) (JSStr ''function'')
                    ''implementation is a function (pass `--property` to skip this test)''))
         (emit T_end))"

text \<open>Lines 110 to 118, the callback of the \<^verbatim>\<open>polyfill\<close> test.\<close>

definition polyfill_cb :: "config \<Rightarrow> jsval \<Rightarrow> jsval \<Rightarrow> unit run" where
  "polyfill_cb cfg module getPolyfill =
     thn (if isMulti cfg then
            emit (T_comment ''# SKIP module.exports.getPolyfill === polyfill.js'')
          else
            bnd (lift (get_prop module ''getPolyfill'')) (\<lambda>mp.
            emit (T_equal getPolyfill mp ''module.exports.getPolyfill === polyfill.js'')))
    (thn (emit (T_equal (JSStr (typeof getPolyfill)) (JSStr ''function'') ''getPolyfill is a function''))
         (emit T_end))"

text \<open>Lines 120 to 136, the callback of the \<^verbatim>\<open>shim\<close> test.\<close>

definition shim_returns_polyfill_msg :: string where
  "shim_returns_polyfill_msg =
     ''shim returns polyfill (pass `--skip-shim-returns-polyfill` to skip this test)''"

definition shim_cb :: "config \<Rightarrow> world \<Rightarrow> jsval \<Rightarrow> jsval \<Rightarrow> jsval \<Rightarrow> unit run" where
  "shim_cb cfg w module shim getPolyfill =
     thn (if isMulti cfg then
            emit (T_comment ''# SKIP module.exports.shim === shim.js'')
          else
            bnd (lift (get_prop module ''shim'')) (\<lambda>ms.
            emit (T_equal shim ms ''module.exports.shim === shim.js'')))
    (thn (emit (T_equal (JSStr (typeof shim)) (JSStr ''function'') ''shim is a function''))
    (thn (if typeof shim = ''function'' then
            (let msg = shim_returns_polyfill_msg in
             if skipShimPolyfill cfg then
               emit (T_comment (''# SKIP '' @ msg))
             else
               bnd (lift (call_js w shim)) (\<lambda>s.
               bnd (lift (call_js w getPolyfill)) (\<lambda>p.
               emit (T_equal s p msg))))
          else ret ())
         (emit T_end)))"

text \<open>Lines 76 to 141, \<^verbatim>\<open>doActualValidation\<close>.\<close>

definition doValidation :: "config \<Rightarrow> world \<Rightarrow> string \<Rightarrow> string \<Rightarrow> jsval run" where
  "doValidation cfg w packageDir name =
     bnd (lift (requireOrEvalError w name)) (\<lambda>module.
     if instanceof_EvalError module then ret module
     else
       bnd (lift (requireOrEvalError w (packageDir @ ''/implementation''))) (\<lambda>implementation.
       bnd (lift (requireOrEvalError w (packageDir @ ''/shim''))) (\<lambda>shim.
       bnd (lift (requireOrEvalError w (packageDir @ ''/polyfill''))) (\<lambda>getPolyfill.
       let prefix = (if isMulti cfg then path_basename w packageDir @ '': '' else []) in
       thn (emit (tape_test (prefix @ ''export'') False (export_cb cfg w module getPolyfill)))
      (thn (emit (tape_test (prefix @ ''implementation'') False
                    (implementation_cb cfg module implementation)))
      (thn (emit (tape_test (prefix @ ''polyfill'') False (polyfill_cb cfg module getPolyfill)))
      (thn (emit (tape_test (prefix @ ''shim'') False (shim_cb cfg w module shim getPolyfill)))
      (thn (testAuto cfg w prefix packageDir False)
           (ret JSUndefined)))))))))"

text \<open>
  The modules with which \<^verbatim>\<open>doActualValidation\<close> reaches line 85 and registers its tests: the
  main module, if it loaded, and its three sub-modules, if the loader did not throw on any
  of them. It registers no test otherwise.
\<close>

definition loaded_modules ::
  "world \<Rightarrow> string \<Rightarrow> string \<Rightarrow> (jsval \<times> jsval \<times> jsval \<times> jsval) option" where
  "loaded_modules w packageDir name =
     (case requireOrEvalError w name of
        Inl e \<Rightarrow> None
      | Inr module \<Rightarrow>
          if instanceof_EvalError module then None
          else
            (case requireOrEvalError w (packageDir @ ''/implementation'') of
               Inl e \<Rightarrow> None
             | Inr implementation \<Rightarrow>
                 (case requireOrEvalError w (packageDir @ ''/shim'') of
                    Inl e \<Rightarrow> None
                  | Inr shim \<Rightarrow>
                      (case requireOrEvalError w (packageDir @ ''/polyfill'') of
                         Inl e \<Rightarrow> None
                       | Inr getPolyfill \<Rightarrow> Some (module, implementation, shim, getPolyfill)))))"

section \<open>The multi-package validator\<close>

text \<open>\<^verbatim>\<open>String(i)\<close> for an array index: its decimal digits.\<close>

definition digit_char :: "nat \<Rightarrow> char" where
  "digit_char d = char_of (48 + d)"

fun string_of_nat :: "nat \<Rightarrow> string" where
  "string_of_nat n =
     (if n < 10 then [digit_char n] else string_of_nat (n div 10) @ [digit_char (n mod 10)])"

declare string_of_nat.simps [simp del]

definition string_array :: "string list \<Rightarrow> jsval" where
  "string_array xs = JSArr Fresh (map (\<lambda>x. Some (JSStr x)) xs) []"

text \<open>The indices of an array which are present, in ascending order, as keys.\<close>

definition index_keys :: "jsval option list \<Rightarrow> string list" where
  "index_keys es = map (\<lambda>(k, e). string_of_nat k) (filter (\<lambda>(k, e). e \<noteq> None) (enumerate 0 es))"

text \<open>
  \<^verbatim>\<open>Object.keys(v)\<close>: the own enumerable string keys; array indices first. It throws on
  \<^verbatim>\<open>null\<close> and \<^verbatim>\<open>undefined\<close>.
\<close>

fun object_keys :: "jsval \<Rightarrow> jsval + jsval" where
  "object_keys JSUndefined = Inl (TypeError ''Cannot convert undefined or null to object'')"
| "object_keys JSNull = Inl (TypeError ''Cannot convert undefined or null to object'')"
| "object_keys (JSArr i es ps) = Inr (string_array (index_keys es @ map fst ps))"
| "object_keys (JSFun i ps) = Inr (string_array (map fst ps))"
| "object_keys (JSObj i ps) = Inr (string_array (map fst ps))"
| "object_keys (JSStr s) = Inr (string_array (map string_of_nat [0..<length s]))"
| "object_keys v = Inr (string_array [])"

text \<open>
  \<^verbatim>\<open>subPackages.map(function (_, i) { return String(i); })\<close>, line 158. \<^verbatim>\<open>Array.prototype.map\<close>
  keeps the length and the holes of its array. Only arrays have a \<^verbatim>\<open>map\<close> here, so on any
  other value the call is a TypeError.
\<close>

fun map_String_i :: "jsval \<Rightarrow> jsval + jsval" where
  "map_String_i (JSArr i es ps) =
     Inr (JSArr Fresh (map (\<lambda>(k, e). map_option (\<lambda>_. JSStr (string_of_nat k)) e) (enumerate 0 es)) [])"
| "map_String_i v = Inl (TypeError ''subPackages.map is not a function'')"

text \<open>\<^verbatim>\<open>subPackages.length > 0\<close>, line 161.\<close>

fun length_gt_0 :: "jsval \<Rightarrow> bool" where
  "length_gt_0 (JSArr i es ps) = (0 < length es)"
| "length_gt_0 (JSStr s) = (0 < length s)"
| "length_gt_0 v = False"

text \<open>
  The filter of lines 163 to 169, over the entries which \<^verbatim>\<open>readdirSync\<close> returned.
  \<^verbatim>\<open>fs.statSync(d)\<close> receives the bare entry name and throws when nothing of that name
  exists; \<^verbatim>\<open>&&\<close> evaluates it only for a name which passed the four tests before it.
\<close>

definition startsWith_dot :: "string \<Rightarrow> bool" where
  "startsWith_dot d = (take 1 d = ''.'')"

fun filter_dirs :: "world \<Rightarrow> string list \<Rightarrow> jsval + string list" where
  "filter_dirs w [] = Inr []"
| "filter_dirs w (d # ds) =
     (if \<not> startsWith_dot d \<and> d \<noteq> ''node_modules'' \<and> d \<noteq> ''helpers'' \<and> d \<noteq> ''test'' then
        (case statSync_isDirectory w d of
           Inl e \<Rightarrow> Inl e
         | Inr b \<Rightarrow> (case filter_dirs w ds of
                       Inl e \<Rightarrow> Inl e
                     | Inr r \<Rightarrow> Inr (if b then d # r else r)))
      else filter_dirs w ds)"

text \<open>\<^verbatim>\<open>path.join(dir, subPackage)\<close>, line 180: a TypeError unless \<^verbatim>\<open>subPackage\<close> is a string.\<close>

definition join_subPackage :: "world \<Rightarrow> string \<Rightarrow> jsval \<Rightarrow> jsval + string" where
  "join_subPackage w dir subPackage =
     (case subPackage of
        JSStr s \<Rightarrow> Inr (path_join w dir s)
      | _ \<Rightarrow> Inl (TypeError ''The path argument must be of type string''))"

text \<open>
  The loop of lines 179 to 182 over the elements of the array; \<^verbatim>\<open>forEach\<close> passes over
  holes. What \<^verbatim>\<open>doValidation\<close> returns is dropped.
\<close>

fun forEach_subPackage :: "config \<Rightarrow> world \<Rightarrow> string \<Rightarrow> jsval option list \<Rightarrow> unit run" where
  "forEach_subPackage cfg w name [] = ret ()"
| "forEach_subPackage cfg w name (None # es) = forEach_subPackage cfg w name es"
| "forEach_subPackage cfg w name (Some subPackage # es) =
     bnd (lift (join_subPackage w (path_dirname w name) subPackage)) (\<lambda>subPackageDir.
     thn (doValidation cfg w subPackageDir subPackageDir)
         (forEach_subPackage cfg w name es))"

definition forEach_subPackages :: "config \<Rightarrow> world \<Rightarrow> string \<Rightarrow> jsval \<Rightarrow> unit run" where
  "forEach_subPackages cfg w name subPackages =
     (case subPackages of
        JSArr i es ps \<Rightarrow> forEach_subPackage cfg w name es
      | _ \<Rightarrow> lift (Inl (TypeError ''subPackages.forEach is not a function'')))"

text \<open>
  Lines 143 to 188, \<^verbatim>\<open>validateAPIModule\<close>. Lines 144 to 149 take the name and the package
  directory from the argument: both are the argument itself unless it is a pair.
\<close>

fun name_of :: "nameOrFilePaths \<Rightarrow> string" where
  "name_of (Name n) = n"
| "name_of (FilePaths n d) = n"

fun packageDir_of :: "nameOrFilePaths \<Rightarrow> string" where
  "packageDir_of (Name n) = n"
| "packageDir_of (FilePaths n d) = d"

definition validateModule :: "config \<Rightarrow> world \<Rightarrow> nameOrFilePaths \<Rightarrow> jsval run" where
  "validateModule cfg w nameOrFilePaths =
     (let name = name_of nameOrFilePaths;
          packageDir = packageDir_of nameOrFilePaths
      in
      if isMulti cfg then
        bnd (lift (requireOrEvalError w name)) (\<lambda>subPackages.
        if instanceof_EvalError subPackages then ret subPackages
        else
          thn (emit (T_ok (JSBool (isArray subPackages)) ''main export is an array of sub packages''))
         (bnd (lift (object_keys subPackages)) (\<lambda>keys.
          bnd (lift (map_String_i subPackages)) (\<lambda>indices.
          thn (emit (T_deepEqual keys indices ''main export has no additional properties''))
         (thn (emit (T_ok (JSBool (length_gt_0 subPackages)) ''array is not empty''))
         (bnd (lift (readdirSync w packageDir)) (\<lambda>entries.
          bnd (lift (filter_dirs w entries)) (\<lambda>dirs.
          thn (emit (T_deepEqual subPackages (string_array dirs)
                       ''main export subpackages matches dirs in the package root''))
         (bnd (lift (requireOrEvalError w (packageDir @ ''/shim''))) (\<lambda>shim.
          thn (emit (T_equal (JSStr (typeof shim)) (JSStr ''function'') ''root shim is a function''))
         (thn (testAuto cfg w ''root: '' packageDir True)
         (bnd (lift (requireOrEvalError w ''./implementation'')) (\<lambda>implementation.
          thn (emit (T_ok (JSBool (instanceof_EvalError implementation))
                       ''root lacks an `implementation` module''))
         (thn (forEach_subPackages cfg w name subPackages)
              (ret JSUndefined)))))))))))))))
      else
        thn (doValidation cfg w packageDir name)
            (ret JSUndefined))"

section \<open>One validation unit per module name\<close>

text \<open>Lines 190 to 198: the callback of the test registered for one entry of \<^verbatim>\<open>moduleNames\<close>.\<close>

definition test_module :: "config \<Rightarrow> world \<Rightarrow> string \<times> nameOrFilePaths \<Rightarrow> event" where
  "test_module cfg w data =
     (let name = fst data; filePath = snd data in
      tape_test (''es-shim API : testing module: '' @ name) False
        (thn (emit (T_comment ''* ----------------------------- * #''))
        (bnd (validateModule cfg w filePath) (\<lambda>err.
         thn (emit (T_error err ''expected no error''))
             (emit T_end)))))"

definition run_api :: "config \<Rightarrow> world \<Rightarrow> (string \<times> nameOrFilePaths) list \<Rightarrow> event list" where
  "run_api cfg w moduleNames = map (test_module cfg w) moduleNames"

section \<open>How tape runs the registered tests\<close>

text \<open>
  The traces above hold every test at the place of its registration, with what its
  callback does once tape runs it. Whether tape runs it is decided here. tape runs the
  tests one after the other in the order of their registration; the tests which a
  callback registers run when their parent has ended, before the tests registered after
  the parent. The callback of a test registered with \<^verbatim>\<open>skip: true\<close> is not invoked and the run
  goes on. Neither tape nor \<^verbatim>\<open>api.js\<close> catches what a callback throws: the process ends, and
  no test which had not yet run will ever run.

  A test ends by its call of \<^verbatim>\<open>end\<close>, or, if it has set a plan and spawned a child, when the
  \<^verbatim>\<open>close\<close> event of the child reaches its handler and the assertions of the test, those of the
  handler included, are as many as planned. The world tells with \<open>spawn_close\<close> whether that
  event arrives. While a test has not ended no later test runs.
\<close>

fun is_test :: "event \<Rightarrow> bool" where
  "is_test (T_test n s body thr) = True"
| "is_test e = False"

fun is_end :: "event \<Rightarrow> bool" where
  "is_end T_end = True"
| "is_end e = False"

text \<open>The calls which a callback makes itself, without the tests it registers.\<close>

definition own_calls :: "event list \<Rightarrow> event list" where
  "own_calls es = filter (\<lambda>e. \<not> is_test e) es"

fun planned :: "event list \<Rightarrow> nat option" where
  "planned [] = None"
| "planned (T_plan n # es) = Some n"
| "planned (e # es) = planned es"

fun spawn_of :: "event list \<Rightarrow> (string \<times> string) option" where
  "spawn_of [] = None"
| "spawn_of (Spawn c as d io # es) = Some (c, d)"
| "spawn_of (e # es) = spawn_of es"

fun close_handler_of :: "event list \<Rightarrow> (jsval \<Rightarrow> event list) option" where
  "close_handler_of [] = None"
| "close_handler_of (Proc_on ev h # es) =
     (if ev = ''close'' then Some h else close_handler_of es)"
| "close_handler_of (e # es) = close_handler_of es"

text \<open>
  How a test whose callback has returned comes to its end: \<open>Some late\<close> with the calls made
  after the return of the callback (those of the \<^verbatim>\<open>close\<close> handler), or \<open>None\<close> when the test
  never ends.
\<close>

definition ending :: "world \<Rightarrow> event list \<Rightarrow> event list option" where
  "ending w body =
     (if list_ex is_end body then Some []
      else
        (case (planned body, spawn_of body, close_handler_of body) of
           (Some n, Some (c, d), Some h) \<Rightarrow>
             (case spawn_close w c d of
                None \<Rightarrow> None
              | Some code \<Rightarrow>
                  if count_assertions (own_calls body @ h code) = n then Some (h code) else None)
         | _ \<Rightarrow> None))"

text \<open>
  The run of a list of calls in which the registered tests are due: the calls which are
  made, the tests which never run left out, and whether the process is still alive
  and free to run what comes after.
\<close>

fun run_tests :: "world \<Rightarrow> event list \<Rightarrow> event list \<times> bool" where
  "run_tests w [] = ([], True)"
| "run_tests w (T_test n skip body thr # es) =
     (if skip then
        (case run_tests w es of (es', go) \<Rightarrow> (T_test n True [] None # es', go))
      else if thr \<noteq> None then
        (T_test n False (own_calls body) thr # own_calls es, False)
      else
        (case ending w body of
           None \<Rightarrow> (T_test n False (own_calls body) None # own_calls es, False)
         | Some late \<Rightarrow>
             (case run_tests w body of
                (body', False) \<Rightarrow> (T_test n False (body' @ late) None # own_calls es, False)
              | (body', True) \<Rightarrow>
                  (case run_tests w es of
                     (es', go) \<Rightarrow> (T_test n False (body' @ late) None # es', go)))))"
| "run_tests w (e # es) = (case run_tests w es of (es', go) \<Rightarrow> (e # es', go))"

text \<open>All calls of a run, those made inside the callbacks of the tests which ran included.\<close>

fun flat_events_of :: "event \<Rightarrow> event list" where
  "flat_events_of (T_test n s body ex) = T_test n s body ex # concat (map flat_events_of body)"
| "flat_events_of e = [e]"

definition flat_events :: "event list \<Rightarrow> event list" where
  "flat_events es = concat (map flat_events_of es)"

definition calls_made :: "world \<Rightarrow> event list \<Rightarrow> event list" where
  "calls_made w es = flat_events (fst (run_tests w es))"

definition goes_on :: "world \<Rightarrow> event list \<Rightarrow> bool" where
  "goes_on w es = snd (run_tests w es)"

fun is_comment :: "string \<Rightarrow> event \<Rightarrow> bool" where
  "is_comment c (T_comment c') = (c' = c)"
| "is_comment c e = False"

fun is_skipped_test :: "string \<Rightarrow> event \<Rightarrow> bool" where
  "is_skipped_test n (T_test n' s body ex) = (n' = n \<and> s)"
| "is_skipped_test n e = False"

fun is_spawn :: "event \<Rightarrow> bool" where
  "is_spawn (Spawn c as d io) = True"
| "is_spawn e = False"

text \<open>
  What a run does, for a list of calls with its registered tests: an assertion with a
  given message is made, a comment is written, a test is recorded as skipped, a child is
  spawned.
\<close>

definition asserted :: "world \<Rightarrow> string \<Rightarrow> event list \<Rightarrow> bool" where
  "asserted w m es = has_assertion m (calls_made w es)"

definition commented :: "world \<Rightarrow> string \<Rightarrow> event list \<Rightarrow> bool" where
  "commented w c es = list_ex (is_comment c) (calls_made w es)"

definition skipped_test :: "world \<Rightarrow> string \<Rightarrow> event list \<Rightarrow> bool" where
  "skipped_test w n es = list_ex (is_skipped_test n) (calls_made w es)"

definition spawned :: "world \<Rightarrow> event list \<Rightarrow> bool" where
  "spawned w es = list_ex is_spawn (calls_made w es)"

section \<open>Example worlds\<close>

text \<open>
  The path functions of the examples agree with Node's on the normalised paths which the
  examples use.
\<close>

definition posix_join :: "string \<Rightarrow> string \<Rightarrow> string" where
  "posix_join a b =
     (let b' = dropWhile (\<lambda>c. c = CHR ''/'') b in
      if a = [] then b else if last a = CHR ''/'' then a @ b' else a @ ''/'' @ b')"

definition posix_dirname :: "string \<Rightarrow> string" where
  "posix_dirname p =
     (let d = rev (drop 1 (dropWhile (\<lambda>c. c \<noteq> CHR ''/'') (rev p))) in
      if d \<noteq> [] then d else if take 1 p = ''/'' then ''/'' else ''.'')"

definition posix_basename :: "string \<Rightarrow> string" where
  "posix_basename p = rev (takeWhile (\<lambda>c. c \<noteq> CHR ''/'') (rev p))"

definition not_found :: "string \<Rightarrow> jsval" where
  "not_found p = JSErr (World 0) ''Error'' (''Cannot find module '' @ p)"

definition ENOENT :: "string \<Rightarrow> jsval" where
  "ENOENT p = JSErr (World 0) ''Error'' (''ENOENT: no such file or directory '' @ p)"

definition require_from :: "(string \<times> jsval) list \<Rightarrow> string \<Rightarrow> jsval + jsval" where
  "require_from modules p = (case map_of modules p of Some v \<Rightarrow> Inr v | None \<Rightarrow> Inl (not_found p))"

definition lookup_or_ENOENT :: "(string \<times> 'a) list \<Rightarrow> string \<Rightarrow> jsval + 'a" where
  "lookup_or_ENOENT table p = (case map_of table p of Some v \<Rightarrow> Inr v | None \<Rightarrow> Inl (ENOENT p))"

text \<open>
  A world in which no module resolves and the disk is empty. A spawned child closes with
  the exit code 0.
\<close>

definition bare_world :: world where
  "bare_world =
     \<lparr> js_require = require_from [],
       js_call = (\<lambda>f. Inr JSUndefined),
       js_ToString = (\<lambda>v. Inr ''[object Object]''),
       readdirSync = lookup_or_ENOENT [],
       statSync_isDirectory = lookup_or_ENOENT [],
       path_join = posix_join,
       path_dirname = posix_dirname,
       path_basename = posix_basename,
       script_dirname = ''/opt/es-shim-api'',
       spawn_close = (\<lambda>command cwd. Some (JSNum 0)) \<rparr>"

definition single_config :: config where
  "single_config = config_of_args []"

definition multi_config :: config where
  "multi_config = config_of_args [''--multi'']"

text \<open>A module whose initialiser is \<^verbatim>\<open>throw null;\<close>.\<close>

definition world_thrower :: world where
  "world_thrower =
     bare_world \<lparr> js_require := (\<lambda>p. if p = ''thrower'' then Inl JSNull else Inl (not_found p)) \<rparr>"

text \<open>A module which loads and whose export is an \<^verbatim>\<open>EvalError\<close> instance.\<close>

definition world_exports_error :: world where
  "world_exports_error =
     bare_world \<lparr> js_require := require_from [(''errmod'', JSErr (World 1) ''EvalError'' ''exported'')] \<rparr>"

text \<open>
  A multi-package root \<^verbatim>\<open>/pkg\<close> with the sub-packages \<^verbatim>\<open>a\<close> and \<^verbatim>\<open>b\<close>, validated from the
  directory \<^verbatim>\<open>/pkg\<close> itself: the bare names given to \<^verbatim>\<open>statSync\<close> are those of \<^verbatim>\<open>/pkg\<close>.
\<close>

definition a_implementation :: jsval where "a_implementation = JSFun (World 11) []"
definition a_polyfill :: jsval where "a_polyfill = JSFun (World 12) []"
definition a_shim :: jsval where "a_shim = JSFun (World 13) []"
definition a_main :: jsval where
  "a_main = JSFun (World 10)
     [(''implementation'', a_implementation), (''getPolyfill'', a_polyfill), (''shim'', a_shim)]"

definition b_implementation :: jsval where "b_implementation = JSFun (World 21) []"
definition b_polyfill :: jsval where "b_polyfill = JSFun (World 22) []"
definition b_shim :: jsval where "b_shim = JSFun (World 23) []"
definition b_main :: jsval where
  "b_main = JSFun (World 20)
     [(''implementation'', b_implementation), (''getPolyfill'', b_polyfill), (''shim'', b_shim)]"

definition pkg_export :: jsval where
  "pkg_export = JSArr (World 1) [Some (JSStr ''a''), Some (JSStr ''b'')] []"

definition pkg_modules :: "(string \<times> jsval) list" where
  "pkg_modules =
     [(''/pkg/index.js'', pkg_export),
      (''/pkg/shim'', JSFun (World 2) []),
      (''/pkg/auto'', JSObj (World 3) []),
      (''/pkg/a'', a_main),
      (''/pkg/a/implementation'', a_implementation),
      (''/pkg/a/polyfill'', a_polyfill),
      (''/pkg/a/shim'', a_shim),
      (''/pkg/a/auto'', JSObj (World 14) []),
      (''/pkg/b'', b_main),
      (''/pkg/b/implementation'', b_implementation),
      (''/pkg/b/polyfill'', b_polyfill),
      (''/pkg/b/shim'', b_shim),
      (''/pkg/b/auto'', JSObj (World 24) [])]"

definition pkg_call :: "jsval \<Rightarrow> jsval + jsval" where
  "pkg_call f =
     (if f = a_polyfill \<or> f = a_shim then Inr a_main
      else if f = b_polyfill \<or> f = b_shim then Inr b_main
      else Inr JSUndefined)"

definition pkg_world :: world where
  "pkg_world =
     bare_world
       \<lparr> js_require := require_from pkg_modules,
         js_call := pkg_call,
         readdirSync := lookup_or_ENOENT
           [(''/pkg'', [''.git'', ''a'', ''auto.js'', ''b'', ''helpers'', ''index.js'',
                        ''node_modules'', ''shim.js'', ''test''])],
         statSync_isDirectory := lookup_or_ENOENT
           [(''a'', True), (''auto.js'', False), (''b'', True), (''index.js'', False),
            (''shim.js'', False)] \<rparr>"

definition pkg_unit :: nameOrFilePaths where
  "pkg_unit = FilePaths ''/pkg/index.js'' ''/pkg''"

text \<open>
  The same root with a manifest that names no \<^verbatim>\<open>main\<close>: line 50 then gives the directory
  \<^verbatim>\<open>/pkg\<close> itself as the name of the main module, and \<^verbatim>\<open>require('/pkg')\<close> loads the file
  \<^verbatim>\<open>/pkg/index.js\<close>.
\<close>

definition pkg_world_without_main :: world where
  "pkg_world_without_main =
     pkg_world \<lparr> js_require := require_from ((''/pkg'', pkg_export) # pkg_modules) \<rparr>"

definition pkg_unit_without_main :: nameOrFilePaths where
  "pkg_unit_without_main = FilePaths ''/pkg'' ''/pkg''"

text \<open>The same root with a file \<^verbatim>\<open>/pkg/implementation.js\<close>, which loads.\<close>

definition pkg_world_with_implementation :: world where
  "pkg_world_with_implementation =
     pkg_world
       \<lparr> js_require := require_from ((''/pkg/implementation'', JSFun (World 4) []) # pkg_modules),
         readdirSync := lookup_or_ENOENT
           [(''/pkg'', [''.git'', ''a'', ''auto.js'', ''b'', ''helpers'', ''implementation.js'',
                        ''index.js'', ''node_modules'', ''shim.js'', ''test''])],
         statSync_isDirectory := lookup_or_ENOENT
           [(''a'', True), (''auto.js'', False), (''b'', True), (''implementation.js'', False),
            (''index.js'', False), (''shim.js'', False)] \<rparr>"

text \<open>
  The validator started in \<^verbatim>\<open>/work\<close> as \<^verbatim>\<open>api.js --multi /pkg\<close>. The package \<^verbatim>\<open>/pkg\<close> holds the
  directory \<^verbatim>\<open>a\<close> and the regular files \<^verbatim>\<open>docs\<close> and \<^verbatim>\<open>index.js\<close>, and declares \<^verbatim>\<open>['a']\<close>; the
  directory \<^verbatim>\<open>/work\<close> holds the directories \<^verbatim>\<open>a\<close> and \<^verbatim>\<open>docs\<close> and a regular file \<^verbatim>\<open>index.js\<close>.
\<close>

definition other_cwd_export :: jsval where
  "other_cwd_export = JSArr (World 1) [Some (JSStr ''a'')] []"

definition other_cwd_world :: world where
  "other_cwd_world =
     bare_world
       \<lparr> js_require := require_from [(''/pkg'', other_cwd_export)],
         readdirSync := lookup_or_ENOENT [(''/pkg'', [''a'', ''docs'', ''index.js''])],
         statSync_isDirectory := lookup_or_ENOENT
           [(''a'', True), (''docs'', True), (''index.js'', False),
            (''/pkg/a'', True), (''/pkg/docs'', False), (''/pkg/index.js'', False)] \<rparr>"

text \<open>
  A single package \<^verbatim>\<open>/lib\<close> which satisfies the whole contract, and the same package
  without its \<^verbatim>\<open>shim\<close> module.
\<close>

definition lib_implementation :: jsval where "lib_implementation = JSFun (World 31) []"
definition lib_polyfill :: jsval where "lib_polyfill = JSFun (World 32) []"
definition lib_shim :: jsval where "lib_shim = JSFun (World 33) []"
definition lib_main :: jsval where
  "lib_main = JSFun (World 30)
     [(''implementation'', lib_implementation), (''getPolyfill'', lib_polyfill), (''shim'', lib_shim)]"

definition lib_call :: "jsval \<Rightarrow> jsval + jsval" where
  "lib_call f = (if f = lib_polyfill \<or> f = lib_shim then Inr lib_main else Inr JSUndefined)"

definition lib_world :: world where
  "lib_world =
     bare_world
       \<lparr> js_require := require_from
           [(''/lib/index.js'', lib_main),
            (''/lib/implementation'', lib_implementation),
            (''/lib/polyfill'', lib_polyfill),
            (''/lib/shim'', lib_shim),
            (''/lib/auto'', JSObj (World 34) [])],
         js_call := lib_call \<rparr>"

definition lib_world_without_shim :: world where
  "lib_world_without_shim =
     bare_world
       \<lparr> js_require := require_from
           [(''/lib/index.js'', lib_main),
            (''/lib/implementation'', lib_implementation),
            (''/lib/polyfill'', lib_polyfill),
            (''/lib/auto'', JSObj (World 34) [])],
         js_call := lib_call \<rparr>"

definition lib_unit :: nameOrFilePaths where
  "lib_unit = FilePaths ''/lib/index.js'' ''/lib''"

definition all_skips_config :: config where
  "all_skips_config =
     config_of_args [''--bound'', ''--property'', ''--skip-shim-returns-polyfill'', ''--skip-auto-shim'']"

definition skip_shim_polyfill_config :: config where
  "skip_shim_polyfill_config = config_of_args [''--skip-shim-returns-polyfill'']"

section \<open>The eligible sub-directories, as the specification words them\<close>

text \<open>
  The specification compares the declared sequence with the entries of the package
  directory which are not hidden, are none of \<^verbatim>\<open>node_modules\<close>, \<^verbatim>\<open>helpers\<close> and \<^verbatim>\<open>test\<close>, and are
  directories of the package directory. This definition follows those words: the entry
  is looked up inside the package directory. It is compared below with \<open>filter_dirs\<close>,
  which follows the code.
\<close>

fun spec_eligible :: "world \<Rightarrow> string \<Rightarrow> string list \<Rightarrow> jsval + string list" where
  "spec_eligible w packageDir [] = Inr []"
| "spec_eligible w packageDir (d # ds) =
     (if \<not> startsWith_dot d \<and> d \<noteq> ''node_modules'' \<and> d \<noteq> ''helpers'' \<and> d \<noteq> ''test'' then
        (case statSync_isDirectory w (path_join w packageDir d) of
           Inl e \<Rightarrow> Inl e
         | Inr b \<Rightarrow> (case spec_eligible w packageDir ds of
                       Inl e \<Rightarrow> Inl e
                     | Inr r \<Rightarrow> Inr (if b then d # r else r)))
      else spec_eligible w packageDir ds)"

definition spec_eligible_subdirs :: "world \<Rightarrow> string \<Rightarrow> jsval + string list" where
  "spec_eligible_subdirs w packageDir =
     (case readdirSync w packageDir of
        Inl e \<Rightarrow> Inl e
      | Inr entries \<Rightarrow> spec_eligible w packageDir entries)"

section \<open>Properties of the model\<close>

lemmas run_defs = ret_def emit_def lift_def bnd_def thn_def thrown_def tape_test_def

lemmas world_defs = bare_world_def require_from_def lookup_or_ENOENT_def not_found_def ENOENT_def
  posix_join_def posix_dirname_def posix_basename_def

lemma single_config_simps [simp]:
  "\<not> isBound single_config" "\<not> isProperty single_config" "\<not> skipShimPolyfill single_config"
  "\<not> skipAutoShim single_config" "\<not> isMulti single_config"
  by (simp_all add: single_config_def config_of_args_def)

lemma multi_config_simps [simp]:
  "\<not> isBound multi_config" "\<not> isProperty multi_config" "\<not> skipShimPolyfill multi_config"
  "\<not> skipAutoShim multi_config" "isMulti multi_config"
  by (simp_all add: multi_config_def config_of_args_def)

lemma all_skips_config_simps [simp]:
  "isBound all_skips_config" "isProperty all_skips_config" "skipShimPolyfill all_skips_config"
  "skipAutoShim all_skips_config" "\<not> isMulti all_skips_config"
  by (simp_all add: all_skips_config_def config_of_args_def)

lemma skip_shim_polyfill_config_simps [simp]:
  "\<not> isBound skip_shim_polyfill_config" "\<not> isProperty skip_shim_polyfill_config"
  "skipShimPolyfill skip_shim_polyfill_config" "\<not> skipAutoShim skip_shim_polyfill_config"
  "\<not> isMulti skip_shim_polyfill_config"
  by (simp_all add: skip_shim_polyfill_config_def config_of_args_def)

subsection \<open>The module loader\<close>

lemma requireOrEvalError_loaded:
  "js_require w name = Inr m \<Longrightarrow> requireOrEvalError w name = Inr m"
  by (simp add: requireOrEvalError_def)

lemma requireOrEvalError_Error:
  "js_require w name = Inl (JSErr i c msg) \<Longrightarrow>
   requireOrEvalError w name = Inr (JSErr Fresh ''EvalError'' msg)"
  by (simp add: requireOrEvalError_def new_EvalError_def)

text \<open>
  The loader throws exactly when the module threw \<^verbatim>\<open>null\<close> or \<^verbatim>\<open>undefined\<close>, or threw a value
  whose \<^verbatim>\<open>message\<close> cannot be converted to a string.
\<close>

lemma requireOrEvalError_throws_iff:
  "(\<exists>t. requireOrEvalError w name = Inl t) \<longleftrightarrow>
   (\<exists>e. js_require w name = Inl e \<and>
      (e = JSNull \<or> e = JSUndefined \<or>
       (\<exists>m. get_prop e ''message'' = Inr m \<and> m \<noteq> JSUndefined \<and> (\<forall>s. m \<noteq> JSStr s)
            \<and> (\<exists>t. js_ToString w m = Inl t))))"
  apply (simp add: requireOrEvalError_def new_EvalError_def split: sum.splits jsval.splits)
  apply (auto elim: get_prop.elims)
  done

text \<open>
  Claim C5 says that the module loader never throws: every exception raised while the
  target module is resolved or executed is caught and converted into the failure value.
  The code does not keep that promise. For a module whose initialiser throws \<^verbatim>\<open>null\<close>, the
  handler of line 56 evaluates \<^verbatim>\<open>e.message\<close> on \<^verbatim>\<open>null\<close>, and the TypeError of that property
  access leaves \<^verbatim>\<open>requireOrEvalError\<close>.
\<close>

theorem loader_throws_when_null_is_thrown:
  "js_require world_thrower ''thrower'' = Inl JSNull \<and>
   requireOrEvalError world_thrower ''thrower'' =
     Inl (TypeError ''Cannot read properties of null (reading message)'')"
  by (simp add: requireOrEvalError_def world_thrower_def)

subsection \<open>A main module which does not load\<close>

text \<open>
  In single mode \<^verbatim>\<open>validateAPIModule\<close> drops what \<^verbatim>\<open>doActualValidation\<close> returns (line 184),
  so the only value it can return is \<^verbatim>\<open>undefined\<close>.
\<close>

lemma single_mode_never_returns_an_error:
  "\<not> isMulti cfg \<Longrightarrow> snd (validateModule cfg w x) = Inr v \<Longrightarrow> v = JSUndefined"
  by (auto simp: validateModule_def run_defs Let_def split: prod.splits sum.splits)

text \<open>
  Claim C6 says that a main module which fails to load is reported as the failing outcome
  of the whole unit, through the assertion \<^verbatim>\<open>expected no error\<close>, with none of the
  structural checks performed and the run not aborted. In single mode the code performs
  no check and does not abort, but the failure is lost: for the module name \<^verbatim>\<open>missing\<close>,
  which does not resolve, the loader yields its \<^verbatim>\<open>EvalError\<close>, the unit makes the single
  assertion \<^verbatim>\<open>t.error(undefined, 'expected no error')\<close>, and that assertion passes.
\<close>

theorem single_mode_load_failure_is_reported_as_pass:
  "requireOrEvalError bare_world ''missing'' =
     Inr (JSErr Fresh ''EvalError'' ''Cannot find module missing'') \<and>
   test_module single_config bare_world (''missing'', Name ''missing'') =
     T_test ''es-shim API : testing module: missing'' False
       [T_comment ''* ----------------------------- * #'',
        T_error JSUndefined ''expected no error'',
        T_end] None \<and>
   outcome_of (T_error JSUndefined ''expected no error'') = Some Pass"
  by (simp add: test_module_def validateModule_def doValidation_def requireOrEvalError_def
        new_EvalError_def world_defs run_defs judge_def)

text \<open>In multi mode the failure of the root to load is returned and the assertion fails.\<close>

lemma multi_mode_load_failure_is_reported_as_fail:
  "test_module multi_config bare_world (''missing'', Name ''missing'') =
     T_test ''es-shim API : testing module: missing'' False
       [T_comment ''* ----------------------------- * #'',
        T_error (JSErr Fresh ''EvalError'' ''Cannot find module missing'') ''expected no error'',
        T_end] None \<and>
   outcome_of (T_error (JSErr Fresh ''EvalError'' ''Cannot find module missing'')
     ''expected no error'') = Some Fail"
  by (simp add: test_module_def validateModule_def requireOrEvalError_def
        new_EvalError_def world_defs run_defs judge_def)

text \<open>
  Claim C10 says that a module which loads, but whose export is itself an \<^verbatim>\<open>EvalError\<close>
  instance, is taken for a load failure: the assertion \<^verbatim>\<open>expected no error\<close> fails and no
  further check runs. In single mode the code runs no further check, but, as for a real
  load failure, the error value never reaches \<^verbatim>\<open>t.error\<close>: the assertion is made on
  \<^verbatim>\<open>undefined\<close> and passes.
\<close>

theorem single_mode_exported_EvalError_is_reported_as_pass:
  "js_require world_exports_error ''errmod'' = Inr (JSErr (World 1) ''EvalError'' ''exported'') \<and>
   test_module single_config world_exports_error (''errmod'', Name ''errmod'') =
     T_test ''es-shim API : testing module: errmod'' False
       [T_comment ''* ----------------------------- * #'',
        T_error JSUndefined ''expected no error'',
        T_end] None \<and>
   outcome_of (T_error JSUndefined ''expected no error'') = Some Pass"
  by (simp add: test_module_def validateModule_def doValidation_def requireOrEvalError_def
        new_EvalError_def world_exports_error_def world_defs run_defs judge_def)

text \<open>In multi mode the exported error is returned like a failure to load.\<close>

lemma multi_mode_exported_EvalError_is_reported_as_fail:
  "test_module multi_config world_exports_error (''errmod'', Name ''errmod'') =
     T_test ''es-shim API : testing module: errmod'' False
       [T_comment ''* ----------------------------- * #'',
        T_error (JSErr (World 1) ''EvalError'' ''exported'') ''expected no error'',
        T_end] None \<and>
   outcome_of (T_error (JSErr (World 1) ''EvalError'' ''exported'') ''expected no error'') =
     Some Fail"
  by (simp add: test_module_def validateModule_def requireOrEvalError_def
        new_EvalError_def world_exports_error_def world_defs run_defs judge_def)

subsection \<open>The side-effect prober\<close>

lemmas pkg_defs = pkg_world_def pkg_modules_def pkg_call_def pkg_export_def pkg_unit_def
  a_main_def a_implementation_def a_polyfill_def a_shim_def
  b_main_def b_implementation_def b_polyfill_def b_shim_def

lemmas lib_defs = lib_world_def lib_world_without_shim_def lib_call_def lib_unit_def
  lib_main_def lib_implementation_def lib_polyfill_def lib_shim_def

text \<open>
  Claim C8: each side-effect probe spawns a child process whose working directory is the
  package directory, which runs the multi-package or the single-package probe script as
  the caller asks (\<open>asMulti\<close>), with inherited standard streams; the probe registers exactly one
  assertion (\<^verbatim>\<open>plan(1)\<close>), made in the handler of the \<^verbatim>\<open>close\<close> event of the child and nowhere
  before it, and that assertion passes exactly when the exit code is 0. A probe takes place
  when \<^verbatim>\<open>--skip-auto-shim\<close> is not given and the \<^verbatim>\<open>auto\<close> module loads.
\<close>

theorem prober_spawns_one_child_and_asserts_its_exit_code:
  assumes "\<not> skipAutoShim cfg"
    and "js_require w (path_join w packageDir ''/auto'') = Inr auto"
  shows "testAuto cfg w prefix packageDir asMulti =
           ([T_test (prefix @ ''auto'') False
               [T_comment ''auto is present (pass `--skip-auto-shim` to skip this test)'',
                Spawn (path_join w (script_dirname w)
                         (if asMulti then ''multiAutoTest.js'' else ''autoTest.js''))
                      [] packageDir ''inherit'',
                T_plan 1,
                Proc_on ''close'' (\<lambda>code. [T_equal code (JSNum 0) ''auto invokes shim''])]
               None],
            Inr ()) \<and>
         count_assertions
           [T_comment ''auto is present (pass `--skip-auto-shim` to skip this test)'',
            Spawn (path_join w (script_dirname w)
                     (if asMulti then ''multiAutoTest.js'' else ''autoTest.js''))
                  [] packageDir ''inherit'',
            T_plan 1,
            Proc_on ''close'' (\<lambda>code. [T_equal code (JSNum 0) ''auto invokes shim''])] = 0 \<and>
         (\<forall>code. count_assertions [T_equal code (JSNum 0) ''auto invokes shim''] = 1 \<and>
            (outcome_of (T_equal code (JSNum 0) ''auto invokes shim'') = Some Pass
               \<longleftrightarrow> code = JSNum 0))"
proof -
  have pass: "outcome_of (T_equal code (JSNum 0) ''auto invokes shim'') = Some Pass
               \<longleftrightarrow> code = JSNum 0" for code
    by (cases code) (auto simp: judge_def strict_equal_def split: ident.splits)
  show ?thesis
    using assms pass by (simp add: testAuto_def run_defs count_assertions_def)
qed

text \<open>
  The probe of the root \<^verbatim>\<open>/pkg\<close>: the multi-package script, run in \<^verbatim>\<open>/pkg\<close>.
\<close>

theorem prober_witness:
  "\<not> skipAutoShim multi_config \<and>
   js_require pkg_world (path_join pkg_world ''/pkg'' ''/auto'') = Inr (JSObj (World 3) []) \<and>
   testAuto multi_config pkg_world ''root: '' ''/pkg'' True =
     ([T_test ''root: auto'' False
         [T_comment ''auto is present (pass `--skip-auto-shim` to skip this test)'',
          Spawn ''/opt/es-shim-api/multiAutoTest.js'' [] ''/pkg'' ''inherit'',
          T_plan 1,
          Proc_on ''close'' (\<lambda>code. [T_equal code (JSNum 0) ''auto invokes shim''])]
         None],
      Inr ()) \<and>
   outcome_of (T_equal (JSNum 0) (JSNum 0) ''auto invokes shim'') = Some Pass \<and>
   outcome_of (T_equal (JSNum 1) (JSNum 0) ''auto invokes shim'') \<noteq> Some Pass \<and>
   outcome_of (T_equal JSNull (JSNum 0) ''auto invokes shim'') \<noteq> Some Pass"
proof -
  have h1: "\<not> skipAutoShim multi_config" by simp
  have h2: "js_require pkg_world (path_join pkg_world ''/pkg'' ''/auto'') = Inr (JSObj (World 3) [])"
    by (simp add: pkg_defs world_defs)
  have p: "path_join pkg_world (script_dirname pkg_world) ''multiAutoTest.js'' = ''/opt/es-shim-api/multiAutoTest.js''"
    by (simp add: pkg_defs world_defs)
  show ?thesis
    using h1 h2 p prober_spawns_one_child_and_asserts_its_exit_code [OF h1 h2, of "''root: ''" True]
    by simp
qed

subsection \<open>The registered tests of a validation\<close>



lemma snd_thn: "snd (thn m k) = (case snd m of Inl e \<Rightarrow> Inl e | Inr a \<Rightarrow> snd k)"
  by (simp add: thn_def bnd_def split: prod.splits sum.splits)

lemma snd_bnd: "snd (bnd m f) = (case snd m of Inl e \<Rightarrow> Inl e | Inr a \<Rightarrow> snd (f a))"
  by (simp add: bnd_def split: prod.splits sum.splits)

lemma run_simps [simp]:
  "fst (emit e) = [e]" "snd (emit e) = Inr ()"
  "fst (lift r) = []" "snd (lift r) = r"
  "fst (ret a) = []" "snd (ret a) = Inr a"
  by (simp_all add: emit_def lift_def ret_def)

lemma snd_testAuto [simp]: "snd (testAuto cfg w p dir asMulti) = Inr ()"
  by (simp add: testAuto_def)

text \<open>
  What \<^verbatim>\<open>doActualValidation\<close> does once the main module and the three sub-modules have been
  loaded: it registers the five tests.
\<close>

lemma doValidation_loaded:
  assumes "requireOrEvalError w name = Inr m" and "\<not> instanceof_EvalError m"
    and "requireOrEvalError w (dir @ ''/implementation'') = Inr impl"
    and "requireOrEvalError w (dir @ ''/shim'') = Inr sh"
    and "requireOrEvalError w (dir @ ''/polyfill'') = Inr gp"
  shows "doValidation cfg w dir name =
     ([tape_test ((if isMulti cfg then path_basename w dir @ '': '' else []) @ ''export'') False
         (export_cb cfg w m gp),
       tape_test ((if isMulti cfg then path_basename w dir @ '': '' else []) @ ''implementation'')
         False (implementation_cb cfg m impl),
       tape_test ((if isMulti cfg then path_basename w dir @ '': '' else []) @ ''polyfill'') False
         (polyfill_cb cfg m gp),
       tape_test ((if isMulti cfg then path_basename w dir @ '': '' else []) @ ''shim'') False
         (shim_cb cfg w m sh gp)]
      @ fst (testAuto cfg w (if isMulti cfg then path_basename w dir @ '': '' else []) dir False),
      Inr JSUndefined)"
  using assms
  by (simp add: doValidation_def testAuto_def ret_def emit_def lift_def bnd_def thn_def Let_def)

text \<open>
  What \<^verbatim>\<open>validateAPIModule\<close> does in multi mode when the main export is an array and nothing
  throws before the loop: seven calls for the root, then the loop.
\<close>

lemma validateModule_multi_array:
  assumes "isMulti cfg"
    and "requireOrEvalError w (name_of x) = Inr (JSArr i es ps)"
    and "readdirSync w (packageDir_of x) = Inr entries"
    and "filter_dirs w entries = Inr dirs"
    and "requireOrEvalError w (packageDir_of x @ ''/shim'') = Inr sh"
    and "requireOrEvalError w ''./implementation'' = Inr im"
  shows "validateModule cfg w x =
     ([T_ok (JSBool True) ''main export is an array of sub packages'',
       T_deepEqual (string_array (index_keys es @ map fst ps))
         (JSArr Fresh (map (\<lambda>(k, e). map_option (\<lambda>_. JSStr (string_of_nat k)) e) (enumerate 0 es)) [])
         ''main export has no additional properties'',
       T_ok (JSBool (0 < length es)) ''array is not empty'',
       T_deepEqual (JSArr i es ps) (string_array dirs)
         ''main export subpackages matches dirs in the package root'',
       T_equal (JSStr (typeof sh)) (JSStr ''function'') ''root shim is a function'']
      @ fst (testAuto cfg w ''root: '' (packageDir_of x) True)
      @ [T_ok (JSBool (instanceof_EvalError im)) ''root lacks an `implementation` module'']
      @ fst (forEach_subPackage cfg w (name_of x) es),
      case snd (forEach_subPackage cfg w (name_of x) es) of
        Inl e \<Rightarrow> Inl e
      | Inr u \<Rightarrow> Inr JSUndefined)"
  using assms
  by (simp add: validateModule_def Let_def forEach_subPackages_def testAuto_def
        ret_def emit_def lift_def bnd_def thn_def split: prod.splits sum.splits)

lemma pkg_world_loads:
  "requireOrEvalError pkg_world ''/pkg/index.js'' = Inr pkg_export"
  "requireOrEvalError pkg_world ''/pkg/shim'' = Inr (JSFun (World 2) [])"
  "requireOrEvalError pkg_world ''./implementation'' =
     Inr (JSErr Fresh ''EvalError'' ''Cannot find module ./implementation'')"
  "requireOrEvalError pkg_world ''/pkg/a'' = Inr a_main"
  "requireOrEvalError pkg_world ''/pkg/a/implementation'' = Inr a_implementation"
  "requireOrEvalError pkg_world ''/pkg/a/shim'' = Inr a_shim"
  "requireOrEvalError pkg_world ''/pkg/a/polyfill'' = Inr a_polyfill"
  "requireOrEvalError pkg_world ''/pkg/b'' = Inr b_main"
  "requireOrEvalError pkg_world ''/pkg/b/implementation'' = Inr b_implementation"
  "requireOrEvalError pkg_world ''/pkg/b/shim'' = Inr b_shim"
  "requireOrEvalError pkg_world ''/pkg/b/polyfill'' = Inr b_polyfill"
  by (simp_all add: requireOrEvalError_def new_EvalError_def pkg_world_def pkg_modules_def world_defs)

lemma pkg_world_paths:
  "path_dirname pkg_world ''/pkg/index.js'' = ''/pkg''"
  "path_join pkg_world ''/pkg'' ''a'' = ''/pkg/a''"
  "path_join pkg_world ''/pkg'' ''b'' = ''/pkg/b''"
  "path_join pkg_world ''/pkg'' ''/auto'' = ''/pkg/auto''"
  "path_join pkg_world ''/pkg/a'' ''/auto'' = ''/pkg/a/auto''"
  "path_join pkg_world ''/pkg/b'' ''/auto'' = ''/pkg/b/auto''"
  "path_basename pkg_world ''/pkg/a'' = ''a''"
  "path_basename pkg_world ''/pkg/b'' = ''b''"
  by (simp_all add: pkg_world_def world_defs)

lemma pkg_world_dirs:
  "readdirSync pkg_world ''/pkg'' =
     Inr [''.git'', ''a'', ''auto.js'', ''b'', ''helpers'', ''index.js'', ''node_modules'',
          ''shim.js'', ''test'']"
  "filter_dirs pkg_world
     [''.git'', ''a'', ''auto.js'', ''b'', ''helpers'', ''index.js'', ''node_modules'',
      ''shim.js'', ''test''] = Inr [''a'', ''b'']"
  by (simp_all add: pkg_world_def world_defs startsWith_dot_def)

lemma pkg_values [simp]:
  "\<not> instanceof_EvalError a_main" "\<not> instanceof_EvalError b_main"
  "\<not> instanceof_EvalError pkg_export"
  "typeof a_shim = ''function''" "typeof b_shim = ''function''"
  "call_js pkg_world a_shim = Inr a_main" "call_js pkg_world a_polyfill = Inr a_main"
  "call_js pkg_world b_shim = Inr b_main" "call_js pkg_world b_polyfill = Inr b_main"
  by (simp_all add: pkg_defs call_js_def world_defs)

subsection \<open>The main export of a multi-package root\<close>










subsection \<open>The directory listing and the root implementation\<close>

text \<open>
  What the filter of lines 163 to 169 keeps, in the order of the listing.
\<close>

lemma filter_dirs_result:
  "filter_dirs w ds = Inr r \<Longrightarrow>
   r = filter (\<lambda>d. \<not> startsWith_dot d \<and> d \<noteq> ''node_modules'' \<and> d \<noteq> ''helpers'' \<and>
                   d \<noteq> ''test'' \<and> statSync_isDirectory w d = Inr True) ds"
proof (induction ds arbitrary: r)
  case Nil
  then show ?case by simp
next
  case (Cons d ds)
  then show ?case
    by (auto split: if_splits sum.splits)
qed

text \<open>
  Where the bare name and the name inside the package directory denote the same file, as
  they do when the validator is started in the package directory, the code keeps the
  entries which the specification names.
\<close>

lemma filter_dirs_follows_the_spec_inside_the_package_directory:
  "\<forall>d \<in> set ds. statSync_isDirectory w d = statSync_isDirectory w (path_join w packageDir d)
   \<Longrightarrow> filter_dirs w ds = spec_eligible w packageDir ds"
  by (induction ds) (auto split: sum.splits)

lemma declared_sequence_check_outcome:
  "deep_equal (JSArr i es ps) (string_array dirs) \<longleftrightarrow>
     map (map_option erase) es = map (\<lambda>d. Some (JSStr d)) dirs \<and> ps = []"
  by (auto simp: deep_equal_def string_array_def comp_def)

lemma other_cwd_world_loads:
  "requireOrEvalError other_cwd_world (name_of (Name ''/pkg'')) = Inr other_cwd_export"
  "requireOrEvalError other_cwd_world (packageDir_of (Name ''/pkg'') @ ''/shim'') =
     Inr (JSErr Fresh ''EvalError'' ''Cannot find module /pkg/shim'')"
  "requireOrEvalError other_cwd_world ''./implementation'' =
     Inr (JSErr Fresh ''EvalError'' ''Cannot find module ./implementation'')"
  by (simp_all add: requireOrEvalError_def new_EvalError_def other_cwd_world_def world_defs)

lemma other_cwd_world_dirs:
  "readdirSync other_cwd_world (packageDir_of (Name ''/pkg'')) = Inr [''a'', ''docs'', ''index.js'']"
  "filter_dirs other_cwd_world [''a'', ''docs'', ''index.js''] = Inr [''a'', ''docs'']"
  by (simp_all add: other_cwd_world_def world_defs startsWith_dot_def)

text \<open>
  Claim C1 says that the declared sequence is compared, in order, with the entries of the
  package directory which are not hidden, are none of \<^verbatim>\<open>node_modules\<close>, \<^verbatim>\<open>helpers\<close> and \<^verbatim>\<open>test\<close>,
  and are directories of the package directory. The code applies the name tests and the
  ordered comparison, but line 168 gives the bare entry name to \<^verbatim>\<open>fs.statSync\<close>, so the entry
  is looked up in the working directory. Started in \<^verbatim>\<open>/work\<close> on the package \<^verbatim>\<open>/pkg\<close>, whose only
  sub-directory is \<^verbatim>\<open>a\<close> and which declares \<^verbatim>\<open>['a']\<close>, the code takes the regular file
  \<^verbatim>\<open>/pkg/docs\<close> for a directory, because \<^verbatim>\<open>/work/docs\<close> is one, and the assertion fails.
\<close>

theorem directories_are_looked_up_in_the_working_directory:
  "spec_eligible_subdirs other_cwd_world ''/pkg'' = Inr [''a''] \<and>
   deep_equal other_cwd_export (string_array [''a'']) \<and>
   filter_dirs other_cwd_world [''a'', ''docs'', ''index.js''] = Inr [''a'', ''docs''] \<and>
   T_deepEqual other_cwd_export (string_array [''a'', ''docs''])
       ''main export subpackages matches dirs in the package root''
     \<in> set (fst (validateModule multi_config other_cwd_world (Name ''/pkg''))) \<and>
   outcome_of (T_deepEqual other_cwd_export (string_array [''a'', ''docs''])
       ''main export subpackages matches dirs in the package root'') = Some Fail"
proof -
  have s: "spec_eligible_subdirs other_cwd_world ''/pkg'' = Inr [''a'']"
    by (simp add: spec_eligible_subdirs_def other_cwd_world_def world_defs startsWith_dot_def)
  have m: "isMulti multi_config" by simp
  have e: "requireOrEvalError other_cwd_world (name_of (Name ''/pkg'')) =
             Inr (JSArr (World 1) [Some (JSStr ''a'')] [])"
    using other_cwd_world_loads(1) by (simp add: other_cwd_export_def)
  have t: "T_deepEqual other_cwd_export (string_array [''a'', ''docs''])
       ''main export subpackages matches dirs in the package root''
     \<in> set (fst (validateModule multi_config other_cwd_world (Name ''/pkg'')))"
    by (simp add: validateModule_multi_array [OF m e other_cwd_world_dirs(1)
          other_cwd_world_dirs(2) other_cwd_world_loads(2) other_cwd_world_loads(3)]
          other_cwd_export_def)
  show ?thesis
    using s t other_cwd_world_dirs(2)
    by (simp add: judge_def deep_equal_def string_array_def other_cwd_export_def)
qed

lemma pkg_world_with_implementation_loads:
  "requireOrEvalError pkg_world_with_implementation (name_of pkg_unit) = Inr pkg_export"
  "requireOrEvalError pkg_world_with_implementation (packageDir_of pkg_unit @ ''/shim'') =
     Inr (JSFun (World 2) [])"
  "requireOrEvalError pkg_world_with_implementation (packageDir_of pkg_unit @ ''/implementation'') =
     Inr (JSFun (World 4) [])"
  "requireOrEvalError pkg_world_with_implementation ''./implementation'' =
     Inr (JSErr Fresh ''EvalError'' ''Cannot find module ./implementation'')"
  by (simp_all add: requireOrEvalError_def new_EvalError_def pkg_world_with_implementation_def
        pkg_world_def pkg_modules_def pkg_unit_def world_defs)

lemma pkg_world_with_implementation_dirs:
  "readdirSync pkg_world_with_implementation (packageDir_of pkg_unit) =
     Inr [''.git'', ''a'', ''auto.js'', ''b'', ''helpers'', ''implementation.js'', ''index.js'',
          ''node_modules'', ''shim.js'', ''test'']"
  "filter_dirs pkg_world_with_implementation
     [''.git'', ''a'', ''auto.js'', ''b'', ''helpers'', ''implementation.js'', ''index.js'',
      ''node_modules'', ''shim.js'', ''test''] = Inr [''a'', ''b'']"
  by (simp_all add: pkg_world_with_implementation_def pkg_world_def pkg_unit_def world_defs
        startsWith_dot_def)

text \<open>
  Claim C3 says that the last root check loads the \<^verbatim>\<open>implementation\<close> module of the root
  under validation and passes exactly when that load fails. The code loads
  \<^verbatim>\<open>'./implementation'\<close> (line 176), which \<^verbatim>\<open>require\<close> resolves beside \<^verbatim>\<open>api.js\<close>, not in the
  package directory. For the root \<^verbatim>\<open>/pkg\<close> with a loadable \<^verbatim>\<open>/pkg/implementation\<close> the assertion
  still passes.
\<close>

theorem root_implementation_is_looked_up_beside_the_validator:
  "requireOrEvalError pkg_world_with_implementation (packageDir_of pkg_unit @ ''/implementation'') =
     Inr (JSFun (World 4) []) \<and>
   T_ok (JSBool True) ''root lacks an `implementation` module''
     \<in> set (fst (validateModule multi_config pkg_world_with_implementation pkg_unit)) \<and>
   outcome_of (T_ok (JSBool True) ''root lacks an `implementation` module'') = Some Pass"
proof -
  have m: "isMulti multi_config" by simp
  have e: "requireOrEvalError pkg_world_with_implementation (name_of pkg_unit) =
             Inr (JSArr (World 1) [Some (JSStr ''a''), Some (JSStr ''b'')] [])"
    using pkg_world_with_implementation_loads(1) by (simp add: pkg_export_def)
  have t: "T_ok (JSBool True) ''root lacks an `implementation` module''
     \<in> set (fst (validateModule multi_config pkg_world_with_implementation pkg_unit))"
    by (simp add: validateModule_multi_array [OF m e pkg_world_with_implementation_dirs(1)
          pkg_world_with_implementation_dirs(2) pkg_world_with_implementation_loads(2)
          pkg_world_with_implementation_loads(4)])
  show ?thesis
    using t pkg_world_with_implementation_loads(3) by (simp add: judge_def)
qed

subsection \<open>The run of the registered tests\<close>

text \<open>
  The calls made by a list of calls and registered tests are those made by its first
  element and then, if that element leaves the process alive, those made by the rest;
  after an element which ends the process only the calls already made by the registering
  callback remain.
\<close>

lemmas sched_defs = calls_made_def goes_on_def flat_events_def ending_def own_calls_def
  count_assertions_def has_assertion_def

lemmas trace_defs = asserted_def commented_def skipped_test_def spawned_def

lemma flat_events_simps [simp]:
  "flat_events [] = []"
  "flat_events (e # es) = flat_events_of e @ flat_events es"
  "flat_events (xs @ ys) = flat_events xs @ flat_events ys"
  by (simp_all add: flat_events_def)

lemma flat_events_own_calls [simp]: "flat_events (own_calls es) = own_calls es"
proof (induction es)
  case Nil
  then show ?case by (simp add: own_calls_def)
next
  case (Cons e es)
  then show ?case by (cases e) (simp_all add: own_calls_def)
qed

lemma run_tests_Cons:
  "run_tests w (e # es) =
     (if goes_on w [e] then (fst (run_tests w [e]) @ fst (run_tests w es), snd (run_tests w es))
      else (fst (run_tests w [e]) @ own_calls es, False))"
  by (cases e)
     (auto simp: goes_on_def own_calls_def split: prod.splits option.splits bool.splits)

lemma calls_made_Cons:
  "calls_made w (e # es) =
     calls_made w [e] @ (if goes_on w [e] then calls_made w es else own_calls es)"
  by (subst calls_made_def, subst run_tests_Cons) (simp add: calls_made_def)

lemma goes_on_Cons: "goes_on w (e # es) \<longleftrightarrow> goes_on w [e] \<and> goes_on w es"
  by (subst goes_on_def, subst run_tests_Cons) (simp add: goes_on_def)

lemma own_calls_tape_test [simp]: "own_calls (tape_test n s cb # es) = own_calls es"
  by (simp add: own_calls_def tape_test_def)

lemma own_calls_Nil [simp]: "own_calls [] = []"
  by (simp add: own_calls_def)

lemma own_calls_append [simp]: "own_calls (xs @ ys) = own_calls xs @ own_calls ys"
  by (simp add: own_calls_def)

lemma goes_on_Nil [simp]: "goes_on w []"
  by (simp add: goes_on_def)

lemma calls_made_Nil [simp]: "calls_made w [] = []"
  by (simp add: calls_made_def)

lemma calls_made_append:
  "calls_made w (xs @ ys) =
     calls_made w xs @ (if goes_on w xs then calls_made w ys else own_calls ys)"
proof (induction xs)
  case Nil
  then show ?case by simp
next
  case (Cons x xs)
  show ?case
    unfolding append_Cons calls_made_Cons [of w x "xs @ ys"] calls_made_Cons [of w x xs]
      goes_on_Cons [of w x xs] Cons.IH
    by simp
qed

lemma goes_on_append: "goes_on w (xs @ ys) \<longleftrightarrow> goes_on w xs \<and> goes_on w ys"
proof (induction xs)
  case Nil
  then show ?case by simp
next
  case (Cons x xs)
  show ?case
    unfolding append_Cons goes_on_Cons [of w x "xs @ ys"] goes_on_Cons [of w x xs] Cons.IH
    by simp
qed

lemma asserted_append:
  "asserted w m (xs @ ys) \<longleftrightarrow>
     asserted w m xs \<or>
     (if goes_on w xs then asserted w m ys else has_assertion m (own_calls ys))"
  by (simp add: asserted_def has_assertion_def calls_made_append)




lemma asserted_plain:
  "asserted w m (T_ok v k # es) \<longleftrightarrow> k = m \<or> asserted w m es"
  "asserted w m (T_equal a b k # es) \<longleftrightarrow> k = m \<or> asserted w m es"
  "asserted w m (T_deepEqual a b k # es) \<longleftrightarrow> k = m \<or> asserted w m es"
  "\<not> asserted w m []"
  by (simp_all add: asserted_def has_assertion_def calls_made_def split: prod.splits)

lemma goes_on_plain:
  "goes_on w (T_ok v k # es) \<longleftrightarrow> goes_on w es"
  "goes_on w (T_equal a b k # es) \<longleftrightarrow> goes_on w es"
  "goes_on w (T_deepEqual a b k # es) \<longleftrightarrow> goes_on w es"
  by (simp_all add: goes_on_def split: prod.splits)


text \<open>
  The test of a validation unit calls \<^verbatim>\<open>end\<close> itself. When \<^verbatim>\<open>validateAPIModule\<close> returns, its calls
  are the comment, the calls of the validation with the tests it registered, the
  assertion \<^verbatim>\<open>expected no error\<close> and \<^verbatim>\<open>end\<close>.
\<close>

lemma calls_made_of_a_test_which_ends:
  assumes "list_ex is_end body"
  shows "calls_made w [T_test n False body None] =
           T_test n False (fst (run_tests w body)) None # calls_made w body"
  using assms
  by (simp add: calls_made_def ending_def flat_events_def split: prod.splits bool.splits)

lemma test_module_returns:
  assumes "snd (validateModule cfg w fp) = Inr v"
  shows "test_module cfg w (n, fp) =
     T_test (''es-shim API : testing module: '' @ n) False
       (T_comment ''* ----------------------------- * #'' # fst (validateModule cfg w fp) @
          [T_error v ''expected no error'', T_end]) None"
  using assms by (cases "validateModule cfg w fp") (simp add: test_module_def run_defs)

lemma calls_made_of_a_unit:
  assumes "snd (validateModule cfg w fp) = Inr v"
  shows "\<exists>t. calls_made w (run_api cfg w [(n, fp)]) =
           T_test t False
             (fst (run_tests w (T_comment ''* ----------------------------- * #'' #
                fst (validateModule cfg w fp) @ [T_error v ''expected no error'', T_end]))) None #
           T_comment ''* ----------------------------- * #'' #
           calls_made w (fst (validateModule cfg w fp)) @
           [T_error v ''expected no error'', T_end]"
proof -
  let ?c = "T_comment ''* ----------------------------- * #''"
  let ?v = "fst (validateModule cfg w fp)"
  let ?e = "[T_error v ''expected no error'', T_end]"
  have 1: "calls_made w [?c] = [?c]"
    by (simp add: calls_made_def)
  have 2: "calls_made w ?e = ?e"
    by (simp add: calls_made_def)
  have 3: "own_calls ?e = ?e"
    by (simp add: own_calls_def)
  have 4: "goes_on w [?c]"
    by (simp add: goes_on_def)
  have 5: "calls_made w (?c # ?v @ ?e) = ?c # calls_made w ?v @ ?e"
    unfolding calls_made_Cons [of w ?c "?v @ ?e"] calls_made_append [of w ?v ?e] 1 2 3
    using 4 by simp
  have 6: "list_ex is_end (?c # ?v @ ?e)"
    by simp
  show ?thesis
    unfolding run_api_def list.map test_module_returns [OF assms]
      calls_made_of_a_test_which_ends [OF 6] 5
    by blast
qed

lemma unit_asserted:
  assumes "snd (validateModule cfg w fp) = Inr v"
  shows "asserted w m (run_api cfg w [(n, fp)]) \<longleftrightarrow>
           asserted w m (fst (validateModule cfg w fp)) \<or> m = ''expected no error''"
proof -
  from calls_made_of_a_unit [OF assms] obtain t where
    "calls_made w (run_api cfg w [(n, fp)]) =
       T_test t False
         (fst (run_tests w (T_comment ''* ----------------------------- * #'' #
            fst (validateModule cfg w fp) @ [T_error v ''expected no error'', T_end]))) None #
       T_comment ''* ----------------------------- * #'' #
       calls_made w (fst (validateModule cfg w fp)) @ [T_error v ''expected no error'', T_end]"
    by blast
  then show ?thesis
    by (auto simp: asserted_def has_assertion_def)
qed



subsection \<open>The five tests of a validation\<close>

text \<open>
  For each of the five tests which \<^verbatim>\<open>doActualValidation\<close> registers: whether the process is
  still alive when the test has run, and which assertions, comments, skipped tests and
  spawned children its run leaves.
\<close>

lemma get_prop_Inr_iff: "(\<exists>v. get_prop m k = Inr v) \<longleftrightarrow> m \<noteq> JSNull \<and> m \<noteq> JSUndefined"
  by (cases m) simp_all

lemmas unfold_run = trace_defs sched_defs tape_test_def emit_def lift_def bnd_def thn_def
  ret_def thrown_def

text \<open>The export test.\<close>

lemma export_test_goes_on:
  "goes_on w [tape_test n False (export_cb cfg w md gp)] \<longleftrightarrow>
     isBound cfg \<or> (\<exists>p. call_js w gp = Inr p)"
  by (cases "isBound cfg"; cases "call_js w gp") (auto simp: export_cb_def unfold_run)

lemma export_test_asserted:
  "asserted w m [tape_test n False (export_cb cfg w md gp)] \<longleftrightarrow>
     m = ''module is a function'' \<or>
     (m = ''module.exports === getPolyfill()'' \<and> \<not> isBound cfg \<and> (\<exists>p. call_js w gp = Inr p))"
  by (cases "isBound cfg"; cases "call_js w gp") (auto simp: export_cb_def unfold_run)

lemma export_test_skipped:
  "skipped_test w k [tape_test n False (export_cb cfg w md gp)] \<longleftrightarrow>
     k = ''module is NOT bound (pass `--bound` to skip this test)'' \<and> isBound cfg"
  by (cases "isBound cfg"; cases "call_js w gp") (auto simp: export_cb_def unfold_run)

lemma export_test_others:
  "\<not> commented w c [tape_test n False (export_cb cfg w md gp)]"
  "\<not> spawned w [tape_test n False (export_cb cfg w md gp)]"
  by (cases "isBound cfg"; cases "call_js w gp"; simp add: export_cb_def unfold_run)+

text \<open>The implementation test.\<close>

lemma implementation_test_goes_on:
  "goes_on w [tape_test n False (implementation_cb cfg md impl)] \<longleftrightarrow>
     isMulti cfg \<or> (md \<noteq> JSNull \<and> md \<noteq> JSUndefined)"
  unfolding get_prop_Inr_iff [of md "''implementation''", symmetric]
  by (cases "isMulti cfg"; cases "isProperty cfg"; cases "get_prop md ''implementation''")
     (auto simp: implementation_cb_def unfold_run)

lemma implementation_test_asserted:
  "asserted w m [tape_test n False (implementation_cb cfg md impl)] \<longleftrightarrow>
     (m = ''module.exports.implementation === implementation.js'' \<and> \<not> isMulti cfg
        \<and> md \<noteq> JSNull \<and> md \<noteq> JSUndefined) \<or>
     (m = ''implementation is a function (pass `--property` to skip this test)'' \<and> \<not> isProperty cfg
        \<and> (isMulti cfg \<or> (md \<noteq> JSNull \<and> md \<noteq> JSUndefined)))"
  unfolding get_prop_Inr_iff [of md "''implementation''", symmetric]
  by (cases "isMulti cfg"; cases "isProperty cfg"; cases "get_prop md ''implementation''")
     (auto simp: implementation_cb_def unfold_run)

lemma implementation_test_commented:
  "commented w c [tape_test n False (implementation_cb cfg md impl)] \<longleftrightarrow>
     (c = ''# SKIP module.exports.implementation === implementation.js'' \<and> isMulti cfg) \<or>
     (c = ''# SKIP implementation that is a data property need not be a function'' \<and> isProperty cfg
        \<and> (isMulti cfg \<or> (md \<noteq> JSNull \<and> md \<noteq> JSUndefined)))"
  unfolding get_prop_Inr_iff [of md "''implementation''", symmetric]
  by (cases "isMulti cfg"; cases "isProperty cfg"; cases "get_prop md ''implementation''")
     (auto simp: implementation_cb_def unfold_run)

lemma implementation_test_others:
  "\<not> skipped_test w k [tape_test n False (implementation_cb cfg md impl)]"
  "\<not> spawned w [tape_test n False (implementation_cb cfg md impl)]"
  by (cases "isMulti cfg"; cases "isProperty cfg"; cases "get_prop md ''implementation''";
      simp add: implementation_cb_def unfold_run)+

text \<open>The polyfill test.\<close>

lemma polyfill_test_goes_on:
  "goes_on w [tape_test n False (polyfill_cb cfg md gp)] \<longleftrightarrow>
     isMulti cfg \<or> (md \<noteq> JSNull \<and> md \<noteq> JSUndefined)"
  unfolding get_prop_Inr_iff [of md "''getPolyfill''", symmetric]
  by (cases "isMulti cfg"; cases "get_prop md ''getPolyfill''")
     (auto simp: polyfill_cb_def unfold_run)

lemma polyfill_test_asserted:
  "asserted w m [tape_test n False (polyfill_cb cfg md gp)] \<longleftrightarrow>
     (m = ''module.exports.getPolyfill === polyfill.js'' \<and> \<not> isMulti cfg
        \<and> md \<noteq> JSNull \<and> md \<noteq> JSUndefined) \<or>
     (m = ''getPolyfill is a function''
        \<and> (isMulti cfg \<or> (md \<noteq> JSNull \<and> md \<noteq> JSUndefined)))"
  unfolding get_prop_Inr_iff [of md "''getPolyfill''", symmetric]
  by (cases "isMulti cfg"; cases "get_prop md ''getPolyfill''")
     (auto simp: polyfill_cb_def unfold_run)

lemma polyfill_test_commented:
  "commented w c [tape_test n False (polyfill_cb cfg md gp)] \<longleftrightarrow>
     c = ''# SKIP module.exports.getPolyfill === polyfill.js'' \<and> isMulti cfg"
  by (cases "isMulti cfg"; cases "get_prop md ''getPolyfill''")
     (auto simp: polyfill_cb_def unfold_run)

lemma polyfill_test_others:
  "\<not> skipped_test w k [tape_test n False (polyfill_cb cfg md gp)]"
  "\<not> spawned w [tape_test n False (polyfill_cb cfg md gp)]"
  by (cases "isMulti cfg"; cases "get_prop md ''getPolyfill''";
      simp add: polyfill_cb_def unfold_run)+

text \<open>The shim test.\<close>

lemma shim_test_goes_on:
  "goes_on w [tape_test n False (shim_cb cfg w md sh gp)] \<longleftrightarrow>
     (isMulti cfg \<or> (md \<noteq> JSNull \<and> md \<noteq> JSUndefined)) \<and>
     (typeof sh \<noteq> ''function'' \<or> skipShimPolyfill cfg \<or>
      (\<exists>s p. call_js w sh = Inr s \<and> call_js w gp = Inr p))"
  unfolding get_prop_Inr_iff [of md "''shim''", symmetric]
  by (cases "isMulti cfg"; cases "skipShimPolyfill cfg"; cases "get_prop md ''shim''";
      cases "call_js w sh"; cases "call_js w gp"; cases "typeof sh = ''function''")
     (auto simp: shim_cb_def shim_returns_polyfill_msg_def unfold_run)

lemma shim_test_asserted:
  "asserted w m [tape_test n False (shim_cb cfg w md sh gp)] \<longleftrightarrow>
     (m = ''module.exports.shim === shim.js'' \<and> \<not> isMulti cfg
        \<and> md \<noteq> JSNull \<and> md \<noteq> JSUndefined) \<or>
     (m = ''shim is a function'' \<and> (isMulti cfg \<or> (md \<noteq> JSNull \<and> md \<noteq> JSUndefined))) \<or>
     (m = shim_returns_polyfill_msg \<and> (isMulti cfg \<or> (md \<noteq> JSNull \<and> md \<noteq> JSUndefined))
        \<and> typeof sh = ''function'' \<and> \<not> skipShimPolyfill cfg
        \<and> (\<exists>s p. call_js w sh = Inr s \<and> call_js w gp = Inr p))"
  unfolding get_prop_Inr_iff [of md "''shim''", symmetric]
  by (cases "isMulti cfg"; cases "skipShimPolyfill cfg"; cases "get_prop md ''shim''";
      cases "call_js w sh"; cases "call_js w gp"; cases "typeof sh = ''function''")
     (auto simp: shim_cb_def shim_returns_polyfill_msg_def unfold_run)

lemma shim_test_commented:
  "commented w c [tape_test n False (shim_cb cfg w md sh gp)] \<longleftrightarrow>
     (c = ''# SKIP module.exports.shim === shim.js'' \<and> isMulti cfg) \<or>
     (c = ''# SKIP '' @ shim_returns_polyfill_msg \<and> skipShimPolyfill cfg \<and> typeof sh = ''function''
        \<and> (isMulti cfg \<or> (md \<noteq> JSNull \<and> md \<noteq> JSUndefined)))"
  unfolding get_prop_Inr_iff [of md "''shim''", symmetric]
  by (cases "isMulti cfg"; cases "skipShimPolyfill cfg"; cases "get_prop md ''shim''";
      cases "call_js w sh"; cases "call_js w gp"; cases "typeof sh = ''function''")
     (auto simp: shim_cb_def shim_returns_polyfill_msg_def unfold_run)

lemma shim_test_others:
  "\<not> skipped_test w k [tape_test n False (shim_cb cfg w md sh gp)]"
  "\<not> spawned w [tape_test n False (shim_cb cfg w md sh gp)]"
  by (cases "isMulti cfg"; cases "skipShimPolyfill cfg"; cases "get_prop md ''shim''";
      cases "call_js w sh"; cases "call_js w gp"; cases "typeof sh = ''function''";
      simp add: shim_cb_def shim_returns_polyfill_msg_def unfold_run)+

text \<open>The auto test.\<close>

lemma auto_test_goes_on:
  "goes_on w (fst (testAuto cfg w p dir asMulti)) \<longleftrightarrow>
     skipAutoShim cfg \<or>
     ((\<exists>v. js_require w (path_join w dir ''/auto'') = Inr v) \<and>
      spawn_close w (path_join w (script_dirname w)
                       (if asMulti then ''multiAutoTest.js'' else ''autoTest.js'')) dir \<noteq> None)"
  by (cases "skipAutoShim cfg"; cases "js_require w (path_join w dir ''/auto'')";
      cases "spawn_close w (path_join w (script_dirname w)
                       (if asMulti then ''multiAutoTest.js'' else ''autoTest.js'')) dir")
     (auto simp: testAuto_def unfold_run)

lemma auto_test_asserted:
  "asserted w m (fst (testAuto cfg w p dir asMulti)) \<longleftrightarrow>
     m = ''auto invokes shim'' \<and> \<not> skipAutoShim cfg \<and>
     (\<exists>v. js_require w (path_join w dir ''/auto'') = Inr v) \<and>
     spawn_close w (path_join w (script_dirname w)
                      (if asMulti then ''multiAutoTest.js'' else ''autoTest.js'')) dir \<noteq> None"
  by (cases "skipAutoShim cfg"; cases "js_require w (path_join w dir ''/auto'')";
      cases "spawn_close w (path_join w (script_dirname w)
                       (if asMulti then ''multiAutoTest.js'' else ''autoTest.js'')) dir")
     (auto simp: testAuto_def unfold_run)

lemma auto_test_commented:
  "commented w c (fst (testAuto cfg w p dir asMulti)) \<longleftrightarrow>
     (c = ''# SKIP auto is present'' \<and> skipAutoShim cfg) \<or>
     (c = ''auto is present (pass `--skip-auto-shim` to skip this test)'' \<and> \<not> skipAutoShim cfg
        \<and> (\<exists>v. js_require w (path_join w dir ''/auto'') = Inr v))"
  by (cases "skipAutoShim cfg"; cases "js_require w (path_join w dir ''/auto'')";
      cases "spawn_close w (path_join w (script_dirname w)
                       (if asMulti then ''multiAutoTest.js'' else ''autoTest.js'')) dir")
     (auto simp: testAuto_def unfold_run)

lemma auto_test_spawned:
  "spawned w (fst (testAuto cfg w p dir asMulti)) \<longleftrightarrow>
     \<not> skipAutoShim cfg \<and> (\<exists>v. js_require w (path_join w dir ''/auto'') = Inr v)"
  by (cases "skipAutoShim cfg"; cases "js_require w (path_join w dir ''/auto'')";
      cases "spawn_close w (path_join w (script_dirname w)
                       (if asMulti then ''multiAutoTest.js'' else ''autoTest.js'')) dir")
     (auto simp: testAuto_def unfold_run)

lemma auto_test_skipped: "\<not> skipped_test w k (fst (testAuto cfg w p dir asMulti))"
  by (cases "skipAutoShim cfg"; cases "js_require w (path_join w dir ''/auto'')";
      cases "spawn_close w (path_join w (script_dirname w)
                       (if asMulti then ''multiAutoTest.js'' else ''autoTest.js'')) dir")
     (auto simp: testAuto_def unfold_run)

text \<open>
  \<^verbatim>\<open>doActualValidation\<close> registers its five tests when the modules load, and nothing
  otherwise. Each test runs only if the tests before it have left the process alive.
\<close>

lemma own_calls_testAuto [simp]: "own_calls (fst (testAuto cfg w p dir asMulti)) = []"
  by (simp add: testAuto_def emit_def)

lemma doValidation_by_loaded_modules:
  "fst (doValidation cfg w dir name) =
     (case loaded_modules w dir name of
        None \<Rightarrow> []
      | Some (m, impl, sh, gp) \<Rightarrow>
          tape_test ((if isMulti cfg then path_basename w dir @ '': '' else []) @ ''export'') False
            (export_cb cfg w m gp) #
          tape_test ((if isMulti cfg then path_basename w dir @ '': '' else []) @ ''implementation'')
            False (implementation_cb cfg m impl) #
          tape_test ((if isMulti cfg then path_basename w dir @ '': '' else []) @ ''polyfill'') False
            (polyfill_cb cfg m gp) #
          tape_test ((if isMulti cfg then path_basename w dir @ '': '' else []) @ ''shim'') False
            (shim_cb cfg w m sh gp) #
          fst (testAuto cfg w (if isMulti cfg then path_basename w dir @ '': '' else []) dir False))"
  by (simp add: doValidation_def loaded_modules_def testAuto_def ret_def emit_def lift_def bnd_def
        thn_def Let_def split: sum.splits)

lemma segment_calls:
  "calls_made w (t1 # t2 # t3 # t4 # ta) =
     calls_made w [t1] @
     (if goes_on w [t1] then
        calls_made w [t2] @
        (if goes_on w [t2] then
           calls_made w [t3] @
           (if goes_on w [t3] then
              calls_made w [t4] @ (if goes_on w [t4] then calls_made w ta else own_calls ta)
            else own_calls (t4 # ta))
         else own_calls (t3 # t4 # ta))
      else own_calls (t2 # t3 # t4 # ta))"
  unfolding calls_made_Cons [of w t1 "t2 # t3 # t4 # ta"] calls_made_Cons [of w t2 "t3 # t4 # ta"]
    calls_made_Cons [of w t3 "t4 # ta"] calls_made_Cons [of w t4 ta]
  by (rule refl)

lemma segment_asserted:
  "asserted w m (tape_test n1 False c1 # tape_test n2 False c2 # tape_test n3 False c3 #
       tape_test n4 False c4 # fst (testAuto cfg w p dir am)) \<longleftrightarrow>
     asserted w m [tape_test n1 False c1] \<or>
     (goes_on w [tape_test n1 False c1] \<and>
      (asserted w m [tape_test n2 False c2] \<or>
       (goes_on w [tape_test n2 False c2] \<and>
        (asserted w m [tape_test n3 False c3] \<or>
         (goes_on w [tape_test n3 False c3] \<and>
          (asserted w m [tape_test n4 False c4] \<or>
           (goes_on w [tape_test n4 False c4] \<and>
            asserted w m (fst (testAuto cfg w p dir am)))))))))"
  by (simp add: asserted_def has_assertion_def segment_calls)

lemma segment_commented:
  "commented w m (tape_test n1 False c1 # tape_test n2 False c2 # tape_test n3 False c3 #
       tape_test n4 False c4 # fst (testAuto cfg w p dir am)) \<longleftrightarrow>
     commented w m [tape_test n1 False c1] \<or>
     (goes_on w [tape_test n1 False c1] \<and>
      (commented w m [tape_test n2 False c2] \<or>
       (goes_on w [tape_test n2 False c2] \<and>
        (commented w m [tape_test n3 False c3] \<or>
         (goes_on w [tape_test n3 False c3] \<and>
          (commented w m [tape_test n4 False c4] \<or>
           (goes_on w [tape_test n4 False c4] \<and>
            commented w m (fst (testAuto cfg w p dir am)))))))))"
  by (simp add: commented_def segment_calls)

lemma segment_skipped_test:
  "skipped_test w m (tape_test n1 False c1 # tape_test n2 False c2 # tape_test n3 False c3 #
       tape_test n4 False c4 # fst (testAuto cfg w p dir am)) \<longleftrightarrow>
     skipped_test w m [tape_test n1 False c1] \<or>
     (goes_on w [tape_test n1 False c1] \<and>
      (skipped_test w m [tape_test n2 False c2] \<or>
       (goes_on w [tape_test n2 False c2] \<and>
        (skipped_test w m [tape_test n3 False c3] \<or>
         (goes_on w [tape_test n3 False c3] \<and>
          (skipped_test w m [tape_test n4 False c4] \<or>
           (goes_on w [tape_test n4 False c4] \<and>
            skipped_test w m (fst (testAuto cfg w p dir am)))))))))"
  by (simp add: skipped_test_def segment_calls)

lemma segment_spawned:
  "spawned w (tape_test n1 False c1 # tape_test n2 False c2 # tape_test n3 False c3 #
       tape_test n4 False c4 # fst (testAuto cfg w p dir am)) \<longleftrightarrow>
     spawned w [tape_test n1 False c1] \<or>
     (goes_on w [tape_test n1 False c1] \<and>
      (spawned w [tape_test n2 False c2] \<or>
       (goes_on w [tape_test n2 False c2] \<and>
        (spawned w [tape_test n3 False c3] \<or>
         (goes_on w [tape_test n3 False c3] \<and>
          (spawned w [tape_test n4 False c4] \<or>
           (goes_on w [tape_test n4 False c4] \<and>
            spawned w (fst (testAuto cfg w p dir am)))))))))"
  by (simp add: spawned_def segment_calls)

lemma segment_goes_on:
  "goes_on w (tape_test n1 False c1 # tape_test n2 False c2 # tape_test n3 False c3 #
       tape_test n4 False c4 # fst (testAuto cfg w p dir am)) \<longleftrightarrow>
     goes_on w [tape_test n1 False c1] \<and> goes_on w [tape_test n2 False c2] \<and>
     goes_on w [tape_test n3 False c3] \<and> goes_on w [tape_test n4 False c4] \<and>
     goes_on w (fst (testAuto cfg w p dir am))"
  unfolding goes_on_Cons [of w "tape_test n1 False c1" "tape_test n2 False c2 # tape_test n3 False c3 #
       tape_test n4 False c4 # fst (testAuto cfg w p dir am)"]
     goes_on_Cons [of w "tape_test n2 False c2" "tape_test n3 False c3 #
       tape_test n4 False c4 # fst (testAuto cfg w p dir am)"]
     goes_on_Cons [of w "tape_test n3 False c3" "tape_test n4 False c4 # fst (testAuto cfg w p dir am)"]
     goes_on_Cons [of w "tape_test n4 False c4" "fst (testAuto cfg w p dir am)"]
  by (rule refl)

lemmas segment_facts = segment_asserted segment_commented segment_skipped_test segment_spawned
  segment_goes_on

lemmas test_facts =
  export_test_goes_on export_test_asserted export_test_skipped export_test_others
  implementation_test_goes_on implementation_test_asserted implementation_test_commented
  implementation_test_others
  polyfill_test_goes_on polyfill_test_asserted polyfill_test_commented polyfill_test_others
  shim_test_goes_on shim_test_asserted shim_test_commented shim_test_others
  auto_test_goes_on auto_test_asserted auto_test_commented auto_test_spawned auto_test_skipped

lemma own_calls_doValidation [simp]: "own_calls (fst (doValidation cfg w dir name)) = []"
  by (simp add: doValidation_by_loaded_modules split: option.splits)


lemma snd_doValidation_loaded:
  assumes "loaded_modules w dir name = Some l"
  shows "snd (doValidation cfg w dir name) = Inr JSUndefined"
  using assms
  by (simp add: doValidation_def loaded_modules_def snd_bnd snd_thn Let_def
        split: sum.splits if_splits)


text \<open>The modules of the example packages.\<close>

lemma pkg_a_loaded:
  "loaded_modules pkg_world ''/pkg/a'' ''/pkg/a'' =
     Some (a_main, a_implementation, a_shim, a_polyfill)"
  by (simp add: loaded_modules_def pkg_world_loads)

lemma pkg_b_loaded:
  "loaded_modules pkg_world ''/pkg/b'' ''/pkg/b'' =
     Some (b_main, b_implementation, b_shim, b_polyfill)"
  by (simp add: loaded_modules_def pkg_world_loads)



lemma lib_values [simp]:
  "lib_main \<noteq> JSNull" "lib_main \<noteq> JSUndefined" "typeof lib_shim = ''function''"
  "call_js lib_world lib_polyfill = Inr lib_main" "call_js lib_world lib_shim = Inr lib_main"
  "call_js lib_world_without_shim lib_polyfill = Inr lib_main"
  by (simp_all add: lib_defs call_js_def world_defs)

text \<open>The validation of the root \<^verbatim>\<open>/pkg\<close> in multi mode.\<close>

lemma forEach_subPackage_pkg:
  "forEach_subPackage multi_config pkg_world ''/pkg/index.js''
     [Some (JSStr ''a''), Some (JSStr ''b'')] =
     (fst (doValidation multi_config pkg_world ''/pkg/a'' ''/pkg/a'') @
      fst (doValidation multi_config pkg_world ''/pkg/b'' ''/pkg/b''), Inr ())"
  using snd_doValidation_loaded [OF pkg_a_loaded, of multi_config]
    snd_doValidation_loaded [OF pkg_b_loaded, of multi_config]
  by (cases "doValidation multi_config pkg_world ''/pkg/a'' ''/pkg/a''";
      cases "doValidation multi_config pkg_world ''/pkg/b'' ''/pkg/b''")
     (simp add: join_subPackage_def pkg_world_paths ret_def lift_def bnd_def thn_def)

lemma validateModule_pkg:
  "validateModule multi_config pkg_world pkg_unit =
     ([T_ok (JSBool True) ''main export is an array of sub packages'',
       T_deepEqual (string_array (index_keys [Some (JSStr ''a''), Some (JSStr ''b'')] @ map fst []))
         (JSArr Fresh (map (\<lambda>(k, e). map_option (\<lambda>_. JSStr (string_of_nat k)) e)
            (enumerate 0 [Some (JSStr ''a''), Some (JSStr ''b'')])) [])
         ''main export has no additional properties'',
       T_ok (JSBool (0 < length [Some (JSStr ''a''), Some (JSStr ''b'')])) ''array is not empty'',
       T_deepEqual (JSArr (World 1) [Some (JSStr ''a''), Some (JSStr ''b'')] [])
         (string_array [''a'', ''b''])
         ''main export subpackages matches dirs in the package root'',
       T_equal (JSStr (typeof (JSFun (World 2) []))) (JSStr ''function'') ''root shim is a function'']
      @ fst (testAuto multi_config pkg_world ''root: '' ''/pkg'' True)
      @ [T_ok (JSBool (instanceof_EvalError
                 (JSErr Fresh ''EvalError'' ''Cannot find module ./implementation'')))
           ''root lacks an `implementation` module'']
      @ (fst (doValidation multi_config pkg_world ''/pkg/a'' ''/pkg/a'') @
         fst (doValidation multi_config pkg_world ''/pkg/b'' ''/pkg/b'')),
      Inr JSUndefined)"
proof -
  have l: "requireOrEvalError pkg_world (name_of pkg_unit) =
             Inr (JSArr (World 1) [Some (JSStr ''a''), Some (JSStr ''b'')] [])"
    "readdirSync pkg_world (packageDir_of pkg_unit) =
       Inr [''.git'', ''a'', ''auto.js'', ''b'', ''helpers'', ''index.js'', ''node_modules'',
          ''shim.js'', ''test'']"
    "requireOrEvalError pkg_world (packageDir_of pkg_unit @ ''/shim'') = Inr (JSFun (World 2) [])"
    using pkg_world_loads pkg_world_dirs by (simp_all add: pkg_unit_def pkg_export_def)
  have n: "name_of pkg_unit = ''/pkg/index.js''" "packageDir_of pkg_unit = ''/pkg''"
    by (simp_all add: pkg_unit_def)
  have m: "isMulti multi_config" by simp
  show ?thesis
    unfolding validateModule_multi_array [OF m l(1) l(2) pkg_world_dirs(2) l(3) pkg_world_loads(3)]
      n forEach_subPackage_pkg
    by simp
qed

lemma root_auto_goes_on: "goes_on pkg_world (fst (testAuto multi_config pkg_world ''root: '' ''/pkg'' True))"
  by (simp add: auto_test_goes_on pkg_world_paths)
     (simp add: pkg_world_def pkg_modules_def world_defs)

subsection \<open>Multi mode and the linkage checks\<close>






subsection \<open>The skip flags\<close>





subsection \<open>The directories of the sub-packages\<close>

text \<open>
  The root \<^verbatim>\<open>/pkg\<close> whose manifest names no \<^verbatim>\<open>main\<close>, so that the name of the main module is the
  package directory.
\<close>

lemma pkg_world_without_main_loads:
  "requireOrEvalError pkg_world_without_main ''/pkg'' = Inr pkg_export"
  "requireOrEvalError pkg_world_without_main ''/pkg/shim'' = Inr (JSFun (World 2) [])"
  "requireOrEvalError pkg_world_without_main ''./implementation'' =
     Inr (JSErr Fresh ''EvalError'' ''Cannot find module ./implementation'')"
  "requireOrEvalError pkg_world_without_main ''/a'' =
     Inr (JSErr Fresh ''EvalError'' ''Cannot find module /a'')"
  "requireOrEvalError pkg_world_without_main ''/b'' =
     Inr (JSErr Fresh ''EvalError'' ''Cannot find module /b'')"
  "loaded_modules pkg_world_without_main ''/pkg/a'' ''/pkg/a'' =
     Some (a_main, a_implementation, a_shim, a_polyfill)"
  "loaded_modules pkg_world_without_main ''/pkg/b'' ''/pkg/b'' =
     Some (b_main, b_implementation, b_shim, b_polyfill)"
  by (simp_all add: loaded_modules_def requireOrEvalError_def new_EvalError_def
        pkg_world_without_main_def pkg_world_def pkg_modules_def world_defs)

lemma pkg_world_without_main_paths:
  "path_dirname pkg_world_without_main ''/pkg'' = ''/''"
  "path_join pkg_world_without_main ''/'' ''a'' = ''/a''"
  "path_join pkg_world_without_main ''/'' ''b'' = ''/b''"
  "path_join pkg_world_without_main ''/pkg'' ''/auto'' = ''/pkg/auto''"
  by (simp_all add: pkg_world_without_main_def pkg_world_def world_defs)

lemma pkg_world_without_main_dirs:
  "readdirSync pkg_world_without_main ''/pkg'' =
     Inr [''.git'', ''a'', ''auto.js'', ''b'', ''helpers'', ''index.js'', ''node_modules'',
          ''shim.js'', ''test'']"
  "filter_dirs pkg_world_without_main
     [''.git'', ''a'', ''auto.js'', ''b'', ''helpers'', ''index.js'', ''node_modules'',
      ''shim.js'', ''test''] = Inr [''a'', ''b'']"
  by (simp_all add: pkg_world_without_main_def pkg_world_def world_defs startsWith_dot_def)

lemma doValidation_beside_the_package:
  "doValidation multi_config pkg_world_without_main ''/a'' ''/a'' =
     ([], Inr (JSErr Fresh ''EvalError'' ''Cannot find module /a''))"
  "doValidation multi_config pkg_world_without_main ''/b'' ''/b'' =
     ([], Inr (JSErr Fresh ''EvalError'' ''Cannot find module /b''))"
  by (simp_all add: doValidation_def pkg_world_without_main_loads ret_def lift_def bnd_def)

lemma forEach_subPackage_without_main:
  "forEach_subPackage multi_config pkg_world_without_main ''/pkg''
     [Some (JSStr ''a''), Some (JSStr ''b'')] = ([], Inr ())"
  by (simp add: join_subPackage_def pkg_world_without_main_paths doValidation_beside_the_package
        ret_def lift_def bnd_def thn_def)

lemma validateModule_without_main:
  "validateModule multi_config pkg_world_without_main pkg_unit_without_main =
     ([T_ok (JSBool True) ''main export is an array of sub packages'',
       T_deepEqual (string_array (index_keys [Some (JSStr ''a''), Some (JSStr ''b'')] @ map fst []))
         (JSArr Fresh (map (\<lambda>(k, e). map_option (\<lambda>_. JSStr (string_of_nat k)) e)
            (enumerate 0 [Some (JSStr ''a''), Some (JSStr ''b'')])) [])
         ''main export has no additional properties'',
       T_ok (JSBool (0 < length [Some (JSStr ''a''), Some (JSStr ''b'')])) ''array is not empty'',
       T_deepEqual (JSArr (World 1) [Some (JSStr ''a''), Some (JSStr ''b'')] [])
         (string_array [''a'', ''b''])
         ''main export subpackages matches dirs in the package root'',
       T_equal (JSStr (typeof (JSFun (World 2) []))) (JSStr ''function'') ''root shim is a function'']
      @ fst (testAuto multi_config pkg_world_without_main ''root: '' ''/pkg'' True)
      @ [T_ok (JSBool (instanceof_EvalError
                 (JSErr Fresh ''EvalError'' ''Cannot find module ./implementation'')))
           ''root lacks an `implementation` module''],
      Inr JSUndefined)"
proof -
  have l: "requireOrEvalError pkg_world_without_main (name_of pkg_unit_without_main) =
             Inr (JSArr (World 1) [Some (JSStr ''a''), Some (JSStr ''b'')] [])"
    "readdirSync pkg_world_without_main (packageDir_of pkg_unit_without_main) =
       Inr [''.git'', ''a'', ''auto.js'', ''b'', ''helpers'', ''index.js'', ''node_modules'',
          ''shim.js'', ''test'']"
    "requireOrEvalError pkg_world_without_main (packageDir_of pkg_unit_without_main @ ''/shim'') =
       Inr (JSFun (World 2) [])"
    using pkg_world_without_main_loads pkg_world_without_main_dirs
    by (simp_all add: pkg_unit_without_main_def pkg_export_def)
  have n: "name_of pkg_unit_without_main = ''/pkg''" "packageDir_of pkg_unit_without_main = ''/pkg''"
    by (simp_all add: pkg_unit_without_main_def)
  have m: "isMulti multi_config" by simp
  show ?thesis
    unfolding validateModule_multi_array [OF m l(1) l(2) pkg_world_without_main_dirs(2) l(3)
        pkg_world_without_main_loads(3)] n forEach_subPackage_without_main
    by simp
qed

lemma asserted_module_in_pkg_a:
  "asserted pkg_world ''module is a function''
     (fst (doValidation multi_config pkg_world ''/pkg/a'' ''/pkg/a''))"
  unfolding doValidation_by_loaded_modules pkg_a_loaded option.case prod.case segment_facts
  by (simp add: test_facts)

text \<open>
  Claim C4 says that every declared sub-package is validated in the directory beside the
  file of the main module, joined with its name. Line 180 takes \<^verbatim>\<open>path.dirname\<close> of the name
  under which the main module is loaded, and that name need not be a file: when the
  manifest of \<^verbatim>\<open>/pkg\<close> names no \<^verbatim>\<open>main\<close>, line 50 gives \<^verbatim>\<open>/pkg\<close>, which loads \<^verbatim>\<open>/pkg/index.js\<close>. The
  sub-packages \<^verbatim>\<open>a\<close> and \<^verbatim>\<open>b\<close> lie beside that file, in \<^verbatim>\<open>/pkg/a\<close> and \<^verbatim>\<open>/pkg/b\<close>, and load there; the
  code looks for them in \<^verbatim>\<open>/a\<close> and \<^verbatim>\<open>/b\<close>, finds nothing, and drops the error which the
  validation returns: no test of a sub-package is registered, no assertion on a
  sub-package is made in the run, and the validation returns no error. The same package
  with \<^verbatim>\<open>index.js\<close> named as \<^verbatim>\<open>main\<close> has its sub-packages validated.
\<close>

theorem sub_packages_beside_a_root_named_by_its_directory_are_not_validated:
  "isMulti multi_config \<and>
   name_of pkg_unit_without_main = ''/pkg'' \<and>
   requireOrEvalError pkg_world_without_main ''/pkg'' = Inr pkg_export \<and>
   loaded_modules pkg_world_without_main ''/pkg/a'' ''/pkg/a'' =
     Some (a_main, a_implementation, a_shim, a_polyfill) \<and>
   loaded_modules pkg_world_without_main ''/pkg/b'' ''/pkg/b'' =
     Some (b_main, b_implementation, b_shim, b_polyfill) \<and>
   path_join pkg_world_without_main (path_dirname pkg_world_without_main ''/pkg'') ''a'' = ''/a'' \<and>
   path_join pkg_world_without_main (path_dirname pkg_world_without_main ''/pkg'') ''b'' = ''/b'' \<and>
   forEach_subPackages multi_config pkg_world_without_main ''/pkg'' pkg_export = ([], Inr ()) \<and>
   snd (validateModule multi_config pkg_world_without_main pkg_unit_without_main) =
     Inr JSUndefined \<and>
   \<not> asserted pkg_world_without_main ''module is a function''
       (run_api multi_config pkg_world_without_main
          [(''pkg (current directory)'', pkg_unit_without_main)]) \<and>
   asserted pkg_world ''module is a function''
     (run_api multi_config pkg_world [(''pkg (current directory)'', pkg_unit)])"
proof -
  have s: "snd (validateModule multi_config pkg_world_without_main pkg_unit_without_main) =
             Inr JSUndefined"
    by (subst validateModule_without_main) (rule snd_conv)
  have f: "forEach_subPackages multi_config pkg_world_without_main ''/pkg'' pkg_export =
             ([], Inr ())"
    unfolding forEach_subPackages_def pkg_export_def jsval.case
    by (rule forEach_subPackage_without_main)
  have a: "\<not> asserted pkg_world_without_main ''module is a function''
             (fst (validateModule multi_config pkg_world_without_main pkg_unit_without_main))"
    by (subst validateModule_without_main)
       (simp add: asserted_plain goes_on_plain asserted_append goes_on_append
          auto_test_asserted has_assertion_def own_calls_def)
  have s': "snd (validateModule multi_config pkg_world pkg_unit) = Inr JSUndefined"
    by (subst validateModule_pkg) (rule snd_conv)
  have a': "asserted pkg_world ''module is a function''
          (fst (validateModule multi_config pkg_world pkg_unit))"
    using asserted_module_in_pkg_a root_auto_goes_on
    by (subst validateModule_pkg)
       (simp add: asserted_plain goes_on_plain asserted_append goes_on_append)
  show ?thesis
    unfolding unit_asserted [OF s] unit_asserted [OF s']
    using s f a a'
    by (simp add: pkg_world_without_main_loads pkg_world_without_main_paths
          pkg_unit_without_main_def)
qed

end
